theory Spec2Isabelle
  imports Complex_Main "HOL-Library.Product_Lexorder" "HOL-Library.Log_Nat"
begin

section \<open>Python values used by the matching engine\<close>

text \<open>
  A Python \<open>dict\<close> is an association list in insertion order; its keys are unique, which the
  theorems that need it assume as \<open>distinct (map fst d)\<close>.  Python's unbounded \<open>int\<close> is
  \<open>int\<close>.  A Python \<open>float\<close> is modelled by the real number it stands for.  The match
  score and the development time are computed in exact real arithmetic; the average level of
  a trending skill, which is rounded to one decimal, is computed from the binary64 quotient
  (\<open>py_truediv\<close>).  Strings are ASCII text.
\<close>

type_synonym skill_map = "(string \<times> int) list"

definition dict_get :: "('k \<times> 'v) list \<Rightarrow> 'k \<Rightarrow> 'v \<Rightarrow> 'v" where
  "dict_get d k dflt = (case map_of d k of Some v \<Rightarrow> v | None \<Rightarrow> dflt)"

definition dict_contains :: "('k \<times> 'v) list \<Rightarrow> 'k \<Rightarrow> bool" where
  "dict_contains d k = (map_of d k \<noteq> None)"

text \<open>\<open>xs[:n]\<close>: a negative bound counts from the end.\<close>

definition py_slice_to :: "'a list \<Rightarrow> int \<Rightarrow> 'a list" where
  "py_slice_to xs n = (if 0 \<le> n then take (nat n) xs else take (nat (int (length xs) + n)) xs)"

text \<open>\<open>xs.sort(key=f, reverse=True)\<close> and \<open>sorted(xs, key=f, reverse=True)\<close>: the list is
  reversed, sorted stably in ascending order and reversed again, so that elements with equal
  keys keep their order.\<close>

definition py_sort_reverse :: "('a \<Rightarrow> 'k::linorder) \<Rightarrow> 'a list \<Rightarrow> 'a list" where
  "py_sort_reverse f xs = rev (sort_key f (rev xs))"

subsection \<open>Strings\<close>

definition lower_char :: "char \<Rightarrow> char" where
  "lower_char c = (case map_of (zip ''ABCDEFGHIJKLMNOPQRSTUVWXYZ'' ''abcdefghijklmnopqrstuvwxyz'') c
                   of Some l \<Rightarrow> l | None \<Rightarrow> c)"

definition upper_char :: "char \<Rightarrow> char" where
  "upper_char c = (case map_of (zip ''abcdefghijklmnopqrstuvwxyz'' ''ABCDEFGHIJKLMNOPQRSTUVWXYZ'') c
                   of Some u \<Rightarrow> u | None \<Rightarrow> c)"

definition is_lower :: "char \<Rightarrow> bool" where
  "is_lower c = (c \<in> set ''abcdefghijklmnopqrstuvwxyz'')"

definition is_upper :: "char \<Rightarrow> bool" where
  "is_upper c = (c \<in> set ''ABCDEFGHIJKLMNOPQRSTUVWXYZ'')"

definition isdigit :: "char \<Rightarrow> bool" where
  "isdigit c = (c \<in> set ''0123456789'')"

definition lower :: "string \<Rightarrow> string" where
  "lower s = map lower_char s"

text \<open>\<open>s.title()\<close>: a letter that follows a letter is lowered, any other letter is raised.\<close>

fun title_from :: "bool \<Rightarrow> string \<Rightarrow> string" where
  "title_from prev [] = []"
| "title_from prev (c # cs) =
     (if is_lower c then (if prev then c else upper_char c) # title_from True cs
      else if is_upper c then (if prev then lower_char c else c) # title_from True cs
      else c # title_from False cs)"

definition title :: "string \<Rightarrow> string" where
  "title s = title_from False s"

definition replace_char :: "char \<Rightarrow> char \<Rightarrow> string \<Rightarrow> string" where
  "replace_char a b s = map (\<lambda>c. if c = a then b else c) s"

fun startswith :: "string \<Rightarrow> string \<Rightarrow> bool" where
  "startswith s [] = True"
| "startswith [] (p # ps) = False"
| "startswith (c # cs) (p # ps) = (c = p \<and> startswith cs ps)"

text \<open>\<open>sub in s\<close>\<close>

fun contains :: "string \<Rightarrow> string \<Rightarrow> bool" where
  "contains [] sub = (sub = [])"
| "contains (c # cs) sub = (startswith (c # cs) sub \<or> contains cs sub)"

text \<open>\<open>s.split(sep)[0]\<close>: the text before the first occurrence of \<open>sep\<close>, all of \<open>s\<close> when
  there is none.\<close>

fun split_first :: "string \<Rightarrow> string \<Rightarrow> string" where
  "split_first [] sep = []"
| "split_first (c # cs) sep = (if startswith (c # cs) sep then [] else c # split_first cs sep)"

text \<open>\<open>sep.join(xs)\<close>\<close>

fun join :: "string \<Rightarrow> string list \<Rightarrow> string" where
  "join sep [] = []"
| "join sep [x] = x"
| "join sep (x # y # ys) = x @ sep @ join sep (y # ys)"

definition digit_value :: "char \<Rightarrow> nat" where
  "digit_value c = (case map_of (zip ''0123456789'' [0, 1, 2, 3, 4, 5, 6, 7, 8, 9]) c
                    of Some d \<Rightarrow> d | None \<Rightarrow> 0)"

datatype py_error = ValueError | Exception

text \<open>\<open>int(s)\<close> on a string of decimal digits; the empty string raises \<open>ValueError\<close>.\<close>

definition int_of_digits :: "string \<Rightarrow> py_error + int" where
  "int_of_digits ds =
     (if ds = [] then Inl ValueError
      else Inr (int (foldl (\<lambda>acc c. 10 * acc + digit_value c) 0 ds)))"

definition digit_char :: "nat \<Rightarrow> char" where
  "digit_char d = ''0123456789'' ! d"

function str_nat :: "nat \<Rightarrow> string" where
  "str_nat n = (if n < 10 then [digit_char n] else str_nat (n div 10) @ [digit_char (n mod 10)])"
  by pat_completeness auto
termination by (relation "measure id") auto

declare str_nat.simps [simp del]

text \<open>\<open>str(i)\<close>, as the f-strings format an integer.\<close>

definition str_int :: "int \<Rightarrow> string" where
  "str_int i = (if i < 0 then CHR ''-'' # str_nat (nat (- i)) else str_nat (nat i))"

section \<open>Data model (backend/models.py)\<close>

record Position =
  pos_id :: string
  pos_title :: string
  pos_department :: string
  pos_level :: string
  pos_required_skills :: skill_map
  pos_preferred_skills :: skill_map
  pos_description :: "string option"
  pos_is_open :: bool

record Employee =
  emp_id :: string
  emp_name :: string
  emp_skills :: skill_map
  emp_career_goals :: "string list"
  emp_target_roles :: "string list"

record SkillGap =
  skill_name :: string
  current_level :: int
  required_level :: int
  gap :: int
  priority :: string

record PositionMatch =
  pm_position :: Position
  match_score :: real
  missing_skills :: skill_map
  pm_skill_gaps :: "SkillGap list"
  recommendation :: string

section \<open>SkillMatcher (backend/skill\_matcher.py)\<close>

subsection \<open>calculate\_skill\_gap\<close>

fun skill_gap_loop :: "skill_map \<Rightarrow> skill_map \<Rightarrow> SkillGap list" where
  "skill_gap_loop current_skills [] = []"
| "skill_gap_loop current_skills ((skill, required) # rest) =
     (let current = dict_get current_skills skill 0;
          g = required - current
      in if g > 0
         then \<lparr>skill_name = skill, current_level = current, required_level = required, gap = g,
               priority = (if g \<ge> 3 then ''high'' else if g \<ge> 2 then ''medium'' else ''low'')\<rparr>
              # skill_gap_loop current_skills rest
         else skill_gap_loop current_skills rest)"

text \<open>The dictionary \<open>priority_order\<close>.  The three keys are the only priorities that
  \<open>skill_gap_loop\<close> writes (lemma \<open>skill_gap_loop_priority\<close>), so the lookup of the sort key
  never misses; the model gives a missing key the weight 0.\<close>

definition priority_order :: "(string \<times> int) list" where
  "priority_order = [(''high'', 3), (''medium'', 2), (''low'', 1)]"

definition gap_sort_key :: "SkillGap \<Rightarrow> int \<times> int" where
  "gap_sort_key x = (gap x, dict_get priority_order (priority x) 0)"

definition calculate_skill_gap :: "skill_map \<Rightarrow> skill_map \<Rightarrow> SkillGap list" where
  "calculate_skill_gap current_skills required_skills =
     py_sort_reverse gap_sort_key (skill_gap_loop current_skills required_skills)"

subsection \<open>calculate\_position\_match\_score\<close>

text \<open>The first loop, with its accumulators \<open>(total_score, max_possible_score)\<close>.\<close>

fun required_loop :: "skill_map \<Rightarrow> skill_map \<Rightarrow> int \<times> int \<Rightarrow> int \<times> int" where
  "required_loop employee_skills [] acc = acc"
| "required_loop employee_skills ((skill, required) # rest) (total_score, max_possible_score) =
     (let current = dict_get employee_skills skill 0
      in required_loop employee_skills rest
           (if current \<ge> required then total_score + required else total_score + current,
            max_possible_score + required))"

text \<open>The second loop, with its accumulators \<open>(bonus_score, max_bonus)\<close>.\<close>

fun preferred_loop :: "skill_map \<Rightarrow> skill_map \<Rightarrow> real \<times> real \<Rightarrow> real \<times> real" where
  "preferred_loop employee_skills [] acc = acc"
| "preferred_loop employee_skills ((skill, preferred) # rest) (bonus_score, max_bonus) =
     (let current = dict_get employee_skills skill 0
      in preferred_loop employee_skills rest
           (if current \<ge> preferred then bonus_score + real_of_int preferred * 0.5
            else bonus_score + real_of_int current * 0.5,
            max_bonus + real_of_int preferred * 0.5))"

definition calculate_position_match_score :: "skill_map \<Rightarrow> Position \<Rightarrow> real" where
  "calculate_position_match_score employee_skills position =
     (if pos_required_skills position = [] then 0
      else
        let (total_score, max_possible_score) =
              required_loop employee_skills (pos_required_skills position) (0, 0);
            (bonus_score, max_bonus) =
              preferred_loop employee_skills (pos_preferred_skills position) (0, 0)
        in if max_possible_score > 0
           then let base_score = real_of_int total_score / real_of_int max_possible_score
                in if max_bonus > 0
                   then let bonus_ratio = bonus_score / max_bonus;
                            final_score = base_score + bonus_ratio * 0.2
                        in min final_score 1
                   else base_score
           else 0)"

section \<open>Configuration and the position repository\<close>

text \<open>The settings of config/config.py that the engine reads; they come from the environment,
  so they are parameters here.\<close>

record Config =
  SKILL_MATCH_THRESHOLD :: real
  RECOMMENDATION_COUNT :: int
  MAX_LEARNING_RESOURCES :: int
  USE_GPT_RESOURCE_GENERATION :: bool
  AZURE_OPENAI_ENDPOINT :: string
  AZURE_OPENAI_API_KEY :: string

text \<open>What \<open>DataManager.load_positions\<close> reads from the positions file.\<close>

record positions_data =
  current_positions :: "Position list"
  open_positions :: "Position list"

definition get_current_positions :: "positions_data \<Rightarrow> Position list" where
  "get_current_positions d = current_positions d"

definition get_open_positions :: "positions_data \<Rightarrow> Position list" where
  "get_open_positions d = map (\<lambda>p. p\<lparr>pos_is_open := True\<rparr>) (open_positions d)"

definition get_position_by_id :: "positions_data \<Rightarrow> string \<Rightarrow> Position option" where
  "get_position_by_id d position_id =
     (case find (\<lambda>p. pos_id p = position_id) (current_positions d) of
        Some p \<Rightarrow> Some p
      | None \<Rightarrow>
          (case find (\<lambda>p. pos_id p = position_id) (open_positions d) of
             Some p \<Rightarrow> Some (p\<lparr>pos_is_open := True\<rparr>)
           | None \<Rightarrow> None))"

subsection \<open>find\_position\_matches\<close>

definition generate_position_recommendation ::
  "real \<Rightarrow> SkillGap list \<Rightarrow> skill_map \<Rightarrow> string" where
  "generate_position_recommendation score skill_gaps missing =
     (let r0 = (if score \<ge> 0.9 then ''Excellent match! You meet most requirements.''
                else if score \<ge> 0.8 then ''Very good match with minor skill gaps.''
                else if score \<ge> 0.7 then ''Good match. Some skill development needed.''
                else ''Partial match. Significant upskilling required.'');
          high_priority_gaps = filter (\<lambda>g. priority g = ''high'') skill_gaps;
          r1 = (if skill_gaps \<noteq> [] \<and> high_priority_gaps \<noteq> []
                then r0 @ '' Focus on developing: ''
                        @ join '', '' (map skill_name (py_slice_to high_priority_gaps 3)) @ ''.''
                else r0)
      in if missing \<noteq> []
         then (let missing_count = length missing
               in if missing_count \<le> 2
                  then r1 @ '' Consider learning: '' @ join '', '' (map fst missing) @ ''.''
                  else r1 @ '' '' @ str_nat missing_count @ '' new skills needed for this role.'')
         else r1)"

fun matches_loop :: "Config \<Rightarrow> Employee \<Rightarrow> Position list \<Rightarrow> PositionMatch list" where
  "matches_loop cfg employee [] = []"
| "matches_loop cfg employee (position # rest) =
     (let score = calculate_position_match_score (emp_skills employee) position
      in if score \<ge> SKILL_MATCH_THRESHOLD cfg
         then (let skill_gaps = calculate_skill_gap (emp_skills employee) (pos_required_skills position);
                   missing = filter (\<lambda>(skill, level). \<not> dict_contains (emp_skills employee) skill)
                                    (pos_required_skills position)
               in \<lparr>pm_position = position, match_score = score, missing_skills = missing,
                   pm_skill_gaps = skill_gaps,
                   recommendation = generate_position_recommendation score skill_gaps missing\<rparr>
                  # matches_loop cfg employee rest)
         else matches_loop cfg employee rest)"

definition find_position_matches ::
  "Config \<Rightarrow> positions_data \<Rightarrow> Employee \<Rightarrow> bool \<Rightarrow> PositionMatch list" where
  "find_position_matches cfg d employee include_current =
     (let positions_to_check =
            get_open_positions d @ (if include_current then get_current_positions d else []);
          matches = matches_loop cfg employee positions_to_check
      in py_slice_to (py_sort_reverse match_score matches) (RECOMMENDATION_COUNT cfg))"

subsection \<open>analyze\_career\_progression\<close>

record progression =
  target_position :: Position
  current_match_score :: real
  prog_skill_gaps :: "SkillGap list"
  estimated_development_time :: string
  recommendations :: "string list"
  next_steps :: "string list"

text \<open>\<open>int(x)\<close> on a float: truncation toward zero.\<close>

definition py_int :: "real \<Rightarrow> int" where
  "py_int x = (if 0 \<le> x then \<lfloor>x\<rfloor> else \<lceil>x\<rceil>)"

definition total_months_loop :: "SkillGap list \<Rightarrow> real" where
  "total_months_loop skill_gaps = foldl (\<lambda>total g. total + real_of_int (gap g) * 1.5) 0 skill_gaps"

definition get_next_steps :: "SkillGap list \<Rightarrow> string list" where
  "get_next_steps priority_gaps =
     map (\<lambda>g. if current_level g = 0
               then ''Start learning '' @ skill_name g @ '' basics''
               else ''Advance '' @ skill_name g @ '' from level '' @ str_int (current_level g)
                      @ '' to '' @ str_int (required_level g))
         priority_gaps"

definition analyze_career_progression ::
  "positions_data \<Rightarrow> Employee \<Rightarrow> string \<Rightarrow> progression option" where
  "analyze_career_progression d employee target_position_id =
     (case get_position_by_id d target_position_id of
        None \<Rightarrow> None
      | Some target \<Rightarrow>
          (let current_match = calculate_position_match_score (emp_skills employee) target;
               skill_gaps = calculate_skill_gap (emp_skills employee) (pos_required_skills target);
               total_months = total_months_loop skill_gaps;
               high_priority = filter (\<lambda>g. priority g = ''high'') skill_gaps;
               medium_priority = filter (\<lambda>g. priority g = ''medium'') skill_gaps;
               recs = (if skill_gaps \<noteq> []
                       then (if high_priority \<noteq> []
                             then [''Immediately focus on: ''
                                     @ join '', '' (map skill_name (py_slice_to high_priority 3))]
                             else [])
                          @ (if medium_priority \<noteq> []
                             then [''Next, develop: ''
                                     @ join '', '' (map skill_name (py_slice_to medium_priority 3))]
                             else [])
                       else [])
           in Some \<lparr>target_position = target, current_match_score = current_match,
                    prog_skill_gaps = skill_gaps,
                    estimated_development_time = str_int (py_int total_months) @ '' months'',
                    recommendations = recs,
                    next_steps = get_next_steps (py_slice_to skill_gaps 3)\<rparr>))"

section \<open>GPTResourceGenerator (backend/gpt\_resource\_generator.py)\<close>

record LearningResource =
  res_id :: string
  res_title :: string
  res_type :: string
  res_provider :: string
  res_duration :: string
  res_skills :: "string list"
  res_level :: string
  res_url :: string
  res_description :: string
  res_rating :: "real option"
  res_price :: "string option"
  res_is_internal :: bool

record LearningPlan =
  plan_employee_id :: string
  plan_target_role :: string
  plan_skill_gaps :: "SkillGap list"
  recommended_resources :: "LearningResource list"
  estimated_duration :: string
  created_at :: nat

subsection \<open>The remote call\<close>

text \<open>What one \<open>requests.post\<close> attempt can do: time out, fail in the transport, fail with any
  other exception (also while the answer is decoded), answer with a status other than 200, or
  answer 200 with the text found at \<open>choices[0].message.content\<close> (empty when there is none).\<close>

datatype attempt = Timeout | RequestException | UnexpectedError | HttpStatus int | Ok200 string

definition is_space :: "char \<Rightarrow> bool" where
  "is_space c = (c \<in> set [CHR '' '', CHR 0x09, CHR 0x0A, CHR 0x0B, CHR 0x0C, CHR 0x0D])"

definition strip :: "string \<Rightarrow> string" where
  "strip s = rev (dropWhile is_space (rev (dropWhile is_space s)))"

text \<open>The retry loop of \<open>_generate_chat_response\<close> over the attempt numbers still to run; the
  pause between two attempts takes time and changes nothing else.  After the last attempt the
  source raises \<open>Exception\<close>.\<close>

fun chat_response_loop :: "(nat \<Rightarrow> attempt) \<Rightarrow> nat list \<Rightarrow> py_error + string" where
  "chat_response_loop remote [] = Inl Exception"
| "chat_response_loop remote (a # rest) =
     (case remote a of
        Ok200 content \<Rightarrow> (if content \<noteq> [] \<and> strip content \<noteq> [] then Inr (strip content) else Inr [])
      | _ \<Rightarrow> chat_response_loop remote rest)"

definition generate_chat_response :: "(nat \<Rightarrow> attempt) \<Rightarrow> nat \<Rightarrow> py_error + string" where
  "generate_chat_response remote max_retries = chat_response_loop remote [0..<max_retries]"

subsection \<open>The offline fallback\<close>

record resource_template =
  tpl_title :: string
  tpl_provider :: string
  tpl_type :: string
  tpl_level :: string
  tpl_url :: string

definition fallback_templates :: "(string \<times> resource_template list) list" where
  "fallback_templates =
     [(''python'',
         [\<lparr>tpl_title = ''Python for Everybody Specialization'', tpl_provider = ''Coursera'',
           tpl_type = ''specialization'', tpl_level = ''beginner'',
           tpl_url = ''https://coursera.org/specializations/python''\<rparr>,
          \<lparr>tpl_title = ''Complete Python Bootcamp'', tpl_provider = ''Udemy'',
           tpl_type = ''course'', tpl_level = ''intermediate'',
           tpl_url = ''https://udemy.com/complete-python-bootcamp''\<rparr>]),
      (''javascript'',
         [\<lparr>tpl_title = ''JavaScript: The Complete Guide'', tpl_provider = ''Udemy'',
           tpl_type = ''course'', tpl_level = ''beginner'',
           tpl_url = ''https://udemy.com/javascript-complete-guide''\<rparr>,
          \<lparr>tpl_title = ''freeCodeCamp JavaScript Algorithms'', tpl_provider = ''freeCodeCamp'',
           tpl_type = ''tutorial'', tpl_level = ''intermediate'',
           tpl_url = ''https://freecodecamp.org/learn/javascript-algorithms-and-data-structures''\<rparr>]),
      (''machine_learning'',
         [\<lparr>tpl_title = ''Machine Learning Specialization'', tpl_provider = ''Coursera'',
           tpl_type = ''specialization'', tpl_level = ''intermediate'',
           tpl_url = ''https://coursera.org/specializations/machine-learning-introduction''\<rparr>]),
      (''project_management'',
         [\<lparr>tpl_title = ''Google Project Management Certificate'', tpl_provider = ''Coursera'',
           tpl_type = ''certification'', tpl_level = ''beginner'',
           tpl_url = ''https://coursera.org/professional-certificates/google-project-management''\<rparr>])]"

definition templated_resource :: "nat \<Rightarrow> string \<Rightarrow> resource_template \<Rightarrow> LearningResource" where
  "templated_resource resource_id skill t =
     \<lparr>res_id = ''fallback_'' @ str_nat resource_id, res_title = tpl_title t, res_type = tpl_type t,
      res_provider = tpl_provider t, res_duration = ''Variable'', res_skills = [skill],
      res_level = tpl_level t, res_url = tpl_url t,
      res_description = ''Learn '' @ skill @ '' with this comprehensive resource'',
      res_rating = Some 4, res_price = Some ''Variable'', res_is_internal = False\<rparr>"

definition generic_resource :: "nat \<Rightarrow> SkillGap \<Rightarrow> LearningResource" where
  "generic_resource resource_id g =
     \<lparr>res_id = ''fallback_'' @ str_nat resource_id,
      res_title = ''Learn '' @ title (replace_char CHR ''_'' CHR '' '' (skill_name g)),
      res_type = ''course'', res_provider = ''Online Learning Platform'',
      res_duration = ''4-6 weeks'', res_skills = [skill_name g],
      res_level = (if current_level g > 0 then ''intermediate'' else ''beginner''),
      res_url = ''https://search.google.com/search?q=''
                  @ replace_char CHR ''_'' CHR ''+'' (skill_name g) @ ''+online+course'',
      res_description = ''Comprehensive '' @ replace_char CHR ''_'' CHR '' '' (skill_name g)
                          @ '' learning resource'',
      res_rating = Some 4, res_price = Some ''Variable'', res_is_internal = False\<rparr>"

text \<open>The inner loop \<open>for template in templates[:1]\<close>, threading the list and the counter.\<close>

fun template_loop ::
  "string \<Rightarrow> resource_template list \<Rightarrow> LearningResource list \<times> nat \<Rightarrow> LearningResource list \<times> nat" where
  "template_loop skill [] st = st"
| "template_loop skill (t # ts) (resources, resource_id) =
     template_loop skill ts (resources @ [templated_resource resource_id skill t], resource_id + 1)"

text \<open>The loop over \<open>skill_gaps[:max_resources]\<close>, which stops as soon as the list holds
  \<open>max_resources\<close> entries.\<close>

fun fallback_loop ::
  "int \<Rightarrow> SkillGap list \<Rightarrow> LearningResource list \<times> nat \<Rightarrow> LearningResource list" where
  "fallback_loop max_resources [] (resources, resource_id) = resources"
| "fallback_loop max_resources (g # rest) (resources, resource_id) =
     (let templates = dict_get fallback_templates (skill_name g) [];
          (resources', resource_id') =
             (if templates \<noteq> []
              then template_loop (skill_name g) (py_slice_to templates 1) (resources, resource_id)
              else (resources @ [generic_resource resource_id g], resource_id + 1))
      in if int (length resources') \<ge> max_resources then resources'
         else fallback_loop max_resources rest (resources', resource_id'))"

definition get_fallback_resources :: "SkillGap list \<Rightarrow> int \<Rightarrow> LearningResource list" where
  "get_fallback_resources skill_gaps max_resources =
     fallback_loop max_resources (py_slice_to skill_gaps max_resources) ([], 1)"

subsection \<open>generate\_learning\_resources\<close>

text \<open>
  The function builds a prompt from the first three gaps, sends it, and hands the answer to
  \<open>_parse_gpt_response\<close>, which catches every exception of its own and returns a list.  The
  remote service (\<open>remote\<close>, by attempt number) and what the parser makes of an answer
  (\<open>parse\<close>) are parameters.  The result is a sum, \<open>Inl\<close> standing for an exception that
  leaves the function: the \<open>try\<close> block's handler turns every exception of the remote call
  into the fallback.
\<close>

definition generate_learning_resources ::
  "Config \<Rightarrow> (nat \<Rightarrow> attempt) \<Rightarrow> (string \<Rightarrow> LearningResource list) \<Rightarrow> SkillGap list \<Rightarrow> int
     \<Rightarrow> py_error + LearningResource list" where
  "generate_learning_resources cfg remote parse skill_gaps max_resources =
     (if AZURE_OPENAI_ENDPOINT cfg = [] \<or> AZURE_OPENAI_API_KEY cfg = []
      then Inr (get_fallback_resources skill_gaps max_resources)
      else if skill_gaps = [] then Inr (get_fallback_resources skill_gaps max_resources)
      else
        (case generate_chat_response remote 3 of
           Inl e \<Rightarrow> Inr (get_fallback_resources skill_gaps max_resources)
         | Inr response_text \<Rightarrow>
             (if response_text \<noteq> [] \<and> length (strip response_text) > 50
                 \<and> parse response_text \<noteq> []
              then Inr (py_slice_to (parse response_text) max_resources)
              else Inr (get_fallback_resources skill_gaps max_resources))))"

section \<open>LearningRecommender (backend/learning\_recommender.py)\<close>

subsection \<open>\_infer\_skills\_from\_role\_name\<close>

text \<open>\<open>d[k] = v\<close>: an existing key keeps its place, a new key goes to the end.\<close>

fun dict_set :: "('k \<times> 'v) list \<Rightarrow> 'k \<Rightarrow> 'v \<Rightarrow> ('k \<times> 'v) list" where
  "dict_set [] k v = [(k, v)]"
| "dict_set ((k', v') # rest) k v = (if k' = k then (k', v) # rest else (k', v') # dict_set rest k v)"

definition role_skill_mapping :: "(string \<times> string list) list" where
  "role_skill_mapping =
     [(''data analyst'', [''python'', ''sql'', ''data_analysis'', ''statistics'']),
      (''software developer'', [''python'', ''javascript'', ''sql'', ''problem_solving'']),
      (''project manager'', [''project_management'', ''leadership'', ''communication'', ''agile'']),
      (''machine learning engineer'', [''python'', ''machine_learning'', ''statistics'', ''data_analysis'']),
      (''full stack developer'', [''javascript'', ''react'', ''nodejs'', ''sql'']),
      (''product manager'', [''business_analysis'', ''project_management'', ''communication'', ''agile'']),
      (''data scientist'', [''python'', ''machine_learning'', ''statistics'', ''data_analysis'']),
      (''frontend developer'', [''javascript'', ''react'', ''web_development'']),
      (''backend developer'', [''python'', ''nodejs'', ''sql'', ''web_development''])]"

definition skill_keywords :: skill_map where
  "skill_keywords =
     [(''python'', 3), (''javascript'', 3), (''sql'', 3), (''machine_learning'', 4),
      (''data_analysis'', 3), (''project_management'', 3), (''leadership'', 3),
      (''communication'', 3), (''agile'', 3), (''react'', 3), (''nodejs'', 3)]"

text \<open>The loop over the role table, which stops at the first key found in the role name.\<close>

fun role_mapping_loop :: "string \<Rightarrow> (string \<times> string list) list \<Rightarrow> skill_map" where
  "role_mapping_loop role_lower [] = []"
| "role_mapping_loop role_lower ((role_key, skills) # rest) =
     (if contains role_lower role_key then foldl (\<lambda>d skill. dict_set d skill 3) [] skills
      else role_mapping_loop role_lower rest)"

definition keyword_loop :: "string \<Rightarrow> skill_map \<Rightarrow> skill_map" where
  "keyword_loop role_lower keywords =
     foldl (\<lambda>d (keyword, level).
              if contains role_lower keyword
                 \<or> contains role_lower (replace_char CHR ''_'' CHR '' '' keyword)
              then dict_set d keyword level else d)
           [] keywords"

fun inferred_gap_loop :: "skill_map \<Rightarrow> skill_map \<Rightarrow> SkillGap list" where
  "inferred_gap_loop current_skills [] = []"
| "inferred_gap_loop current_skills ((skill, required) # rest) =
     (let current = dict_get current_skills skill 0
      in if current < required
         then (let g = required - current
               in \<lparr>skill_name = skill, current_level = current, required_level = required, gap = g,
                   priority = (if g \<ge> 3 then ''high'' else if g \<ge> 2 then ''medium'' else ''low'')\<rparr>
                  # inferred_gap_loop current_skills rest)
         else inferred_gap_loop current_skills rest)"

definition infer_skills_from_role_name :: "string \<Rightarrow> skill_map \<Rightarrow> SkillGap list" where
  "infer_skills_from_role_name role_name current_skills =
     (let role_lower = lower role_name;
          mapped = role_mapping_loop role_lower role_skill_mapping;
          required_skills = (if mapped = [] then keyword_loop role_lower skill_keywords else mapped)
      in py_sort_reverse gap (inferred_gap_loop current_skills required_skills))"

subsection \<open>\_generate\_basic\_resources\<close>

record basic_template =
  bt_title :: string
  bt_provider :: string
  bt_type :: string
  bt_duration :: string
  bt_description :: string

definition basic_templates :: "(string \<times> basic_template) list" where
  "basic_templates =
     [(''python'',
         \<lparr>bt_title = ''Python Programming Course'', bt_provider = ''Online Learning'',
          bt_type = ''course'', bt_duration = ''6-8 weeks'',
          bt_description = ''Comprehensive Python programming course''\<rparr>),
      (''javascript'',
         \<lparr>bt_title = ''JavaScript Fundamentals'', bt_provider = ''Web Development Platform'',
          bt_type = ''course'', bt_duration = ''4-6 weeks'',
          bt_description = ''Learn JavaScript from basics to advanced''\<rparr>),
      (''machine_learning'',
         \<lparr>bt_title = ''Machine Learning Essentials'', bt_provider = ''Data Science Platform'',
          bt_type = ''specialization'', bt_duration = ''3 months'',
          bt_description = ''Complete machine learning course''\<rparr>),
      (''project_management'',
         \<lparr>bt_title = ''Project Management Fundamentals'', bt_provider = ''Professional Development'',
          bt_type = ''certification'', bt_duration = ''8 weeks'',
          bt_description = ''Learn project management best practices''\<rparr>)]"

definition basic_resource :: "nat \<Rightarrow> SkillGap \<Rightarrow> LearningResource" where
  "basic_resource i g =
     (let spaced = replace_char CHR ''_'' CHR '' '' (skill_name g);
          template = dict_get basic_templates (skill_name g)
                       \<lparr>bt_title = ''Learn '' @ title spaced, bt_provider = ''Online Platform'',
                        bt_type = ''course'', bt_duration = ''4-6 weeks'',
                        bt_description = ''Develop your '' @ spaced @ '' skills''\<rparr>
      in \<lparr>res_id = ''basic_'' @ str_nat (i + 1), res_title = bt_title template,
          res_type = bt_type template, res_provider = bt_provider template,
          res_duration = bt_duration template, res_skills = [skill_name g],
          res_level = (if current_level g = 0 then ''beginner''
                       else if current_level g < 3 then ''intermediate'' else ''advanced''),
          res_url = ''https://example.com/'' @ skill_name g,
          res_description = bt_description template,
          res_rating = Some 4, res_price = Some ''Variable'', res_is_internal = False\<rparr>)"

definition generate_basic_resources :: "SkillGap list \<Rightarrow> int \<Rightarrow> LearningResource list" where
  "generate_basic_resources skill_gaps max_resources =
     map (\<lambda>(i, g). basic_resource i g) (enumerate 0 (py_slice_to skill_gaps max_resources))"

subsection \<open>\_calculate\_estimated\_duration\<close>

text \<open>\<open>int(''.join(filter(str.isdigit, duration_str.split(unit)[0])))\<close>\<close>

definition digits_before :: "string \<Rightarrow> string \<Rightarrow> py_error + int" where
  "digits_before duration_str unit = int_of_digits (filter isdigit (split_first duration_str unit))"

definition resource_hours :: "LearningResource \<Rightarrow> int" where
  "resource_hours resource =
     (let duration_str = lower (res_duration resource)
      in if contains duration_str ''hour''
         then (case digits_before duration_str ''hour'' of Inr hours \<Rightarrow> hours | Inl e \<Rightarrow> 10)
         else if contains duration_str ''month''
         then (case digits_before duration_str ''month'' of Inr months \<Rightarrow> months * 40 | Inl e \<Rightarrow> 40)
         else if contains duration_str ''week''
         then (case digits_before duration_str ''week'' of Inr weeks \<Rightarrow> weeks * 10 | Inl e \<Rightarrow> 20)
         else 10)"

definition calculate_estimated_duration :: "LearningResource list \<Rightarrow> string" where
  "calculate_estimated_duration resources =
     (let total_hours = foldl (\<lambda>total r. total + resource_hours r) 0 resources
      in if total_hours < 40 then str_int total_hours @ '' hours''
         else if total_hours < 160 then str_int (total_hours div 10) @ '' weeks''
         else str_int (total_hours div 40) @ '' months'')"

subsection \<open>generate\_learning\_plan\<close>

text \<open>The loop that looks for the target position; a position found ends it.\<close>

definition find_target_position :: "Position list \<Rightarrow> string \<Rightarrow> Position option" where
  "find_target_position all_positions target_role =
     find (\<lambda>position. lower (pos_title position) = lower target_role \<or> pos_id position = target_role)
          all_positions"

text \<open>\<open>now\<close> is the clock reading at the call; \<open>max_resources\<close> is \<open>None\<close> when the caller
  leaves it out.\<close>

definition generate_learning_plan ::
  "Config \<Rightarrow> positions_data \<Rightarrow> (nat \<Rightarrow> attempt) \<Rightarrow> (string \<Rightarrow> LearningResource list) \<Rightarrow> nat
     \<Rightarrow> Employee \<Rightarrow> string \<Rightarrow> int option \<Rightarrow> py_error + LearningPlan" where
  "generate_learning_plan cfg d remote parse now employee target_role max_resources_opt =
     (let max_resources = (case max_resources_opt of None \<Rightarrow> MAX_LEARNING_RESOURCES cfg | Some m \<Rightarrow> m);
          all_positions = get_open_positions d @ get_current_positions d;
          skill_gaps =
            (case find_target_position all_positions target_role of
               None \<Rightarrow> infer_skills_from_role_name target_role (emp_skills employee)
             | Some target \<Rightarrow>
                 calculate_skill_gap (emp_skills employee) (pos_required_skills target));
          generated =
            (if USE_GPT_RESOURCE_GENERATION cfg
             then generate_learning_resources cfg remote parse skill_gaps max_resources
             else Inr (generate_basic_resources skill_gaps max_resources))
      in case generated of
           Inl e \<Rightarrow> Inl e
         | Inr resources \<Rightarrow>
             Inr \<lparr>plan_employee_id = emp_id employee, plan_target_role = target_role,
                  plan_skill_gaps = skill_gaps, recommended_resources = resources,
                  estimated_duration = calculate_estimated_duration resources,
                  created_at = now\<rparr>)"

subsection \<open>get\_trending\_skills\<close>

record demand =
  dm_count :: int
  dm_avg_level :: int
  dm_total_level :: int

record trending_skill =
  tr_skill :: string
  demand_count :: int
  average_level :: real
  trend :: string

text \<open>One pass of the inner loop: a skill seen for the first time gets a fresh entry at the end
  of the dictionary, then its count and total are raised.\<close>

fun demand_add :: "(string \<times> demand) list \<Rightarrow> string \<Rightarrow> int \<Rightarrow> (string \<times> demand) list" where
  "demand_add [] skill level =
     [(skill, \<lparr>dm_count = 0 + 1, dm_avg_level = 0, dm_total_level = 0 + level\<rparr>)]"
| "demand_add ((k, e) # rest) skill level =
     (if k = skill
      then (k, e\<lparr>dm_count := dm_count e + 1, dm_total_level := dm_total_level e + level\<rparr>) # rest
      else (k, e) # demand_add rest skill level)"

definition count_demand :: "Position list \<Rightarrow> (string \<times> demand) list" where
  "count_demand positions =
     foldl (\<lambda>skill_demand position.
              foldl (\<lambda>sd (skill, level). demand_add sd skill level) skill_demand
                    (pos_required_skills position))
           [] positions"

text \<open>
  \<open>a / b\<close> on two integers gives the binary64 number nearest to the quotient, the one with
  the even significand of two equally near.  For positive \<open>p\<close> and \<open>q\<close>, \<open>l\<close> is the
  exponent of the quotient (\<open>2 powi l \<le> p / q < 2 powi (l + 1)\<close>), found from the bit lengths,
  and the quotient is rounded to a multiple of \<open>2 powi (l - 52)\<close>: a significand of 53 bits.
  The exponent range of binary64 is not modelled (it is not reached by quotients of integers
  below \<open>2 ^ 1023\<close>).
\<close>

definition round_half_even :: "real \<Rightarrow> int" where
  "round_half_even y =
     (let f = \<lfloor>y\<rfloor>; r = y - real_of_int f
      in if r < 1 / 2 then f else if r > 1 / 2 then f + 1 else if even f then f else f + 1)"

definition float_div_pos :: "int \<Rightarrow> int \<Rightarrow> real" where
  "float_div_pos p q =
     (let k = bitlen p - bitlen q;
          l = (if real_of_int q * 2 powi k \<le> real_of_int p then k else k - 1);
          e = l - 52
      in real_of_int (round_half_even (real_of_int p / (real_of_int q * 2 powi e))) * 2 powi e)"

text \<open>The divisor 0 raises \<open>ZeroDivisionError\<close> in the source; the one division of this
  module stands under the test \<open>data["count"] > 0\<close>.\<close>

definition py_truediv :: "int \<Rightarrow> int \<Rightarrow> real" where
  "py_truediv a b =
     (if a = 0 then 0
      else if (a < 0) = (b < 0) then float_div_pos \<bar>a\<bar> \<bar>b\<bar>
      else - float_div_pos \<bar>a\<bar> \<bar>b\<bar>)"

text \<open>\<open>round(x, 1)\<close> on the float \<open>x\<close>: the multiple of one tenth nearest to the value of
  \<open>x\<close>, the even one of two equally near.  The result stands for the float nearest to that
  decimal, which Python prints as the decimal itself.\<close>

definition py_round1 :: "real \<Rightarrow> real" where
  "py_round1 x = real_of_int (round_half_even (x * 10)) / 10"

definition trending_entries :: "(string \<times> demand) list \<Rightarrow> trending_skill list" where
  "trending_entries skill_demand =
     map (\<lambda>(skill, e).
            \<lparr>tr_skill = skill, demand_count = dm_count e,
             average_level = py_round1 (py_truediv (dm_total_level e) (dm_count e)),
             trend = (if dm_count e \<ge> 3 then ''high''
                      else if dm_count e \<ge> 2 then ''medium'' else ''low'')\<rparr>)
         (filter (\<lambda>(skill, e). dm_count e > 0) skill_demand)"

definition get_trending_skills :: "positions_data \<Rightarrow> trending_skill list" where
  "get_trending_skills d =
     py_slice_to
       (py_sort_reverse (\<lambda>x. (demand_count x, average_level x))
          (trending_entries (count_demand (get_open_positions d))))
       10"

section \<open>Worked inputs\<close>

text \<open>The settings that config/config.py falls back to when the environment sets none, with an
  Azure OpenAI endpoint and key in place.\<close>

definition example_config :: Config where
  "example_config =
     \<lparr>SKILL_MATCH_THRESHOLD = 0.7, RECOMMENDATION_COUNT = 5, MAX_LEARNING_RESOURCES = 10,
      USE_GPT_RESOURCE_GENERATION = True,
      AZURE_OPENAI_ENDPOINT = ''https://example.openai.azure.com'',
      AZURE_OPENAI_API_KEY = ''secret''\<rparr>"

definition example_position :: "string \<Rightarrow> string \<Rightarrow> skill_map \<Rightarrow> Position" where
  "example_position ident name required =
     \<lparr>pos_id = ident, pos_title = name, pos_department = ''Engineering'', pos_level = ''mid'',
      pos_required_skills = required, pos_preferred_skills = [], pos_description = None,
      pos_is_open = True\<rparr>"

definition example_employee :: "skill_map \<Rightarrow> Employee" where
  "example_employee skills =
     \<lparr>emp_id = ''E1'', emp_name = ''Ada'', emp_skills = skills, emp_career_goals = [],
      emp_target_roles = []\<rparr>"

text \<open>A remote service that times out at every attempt, and a parser that finds no resource.\<close>

definition all_timeouts :: "nat \<Rightarrow> attempt" where
  "all_timeouts attempt_no = Timeout"

definition parse_nothing :: "string \<Rightarrow> LearningResource list" where
  "parse_nothing response_text = []"

section \<open>Properties\<close>

subsection \<open>Slices and sorting\<close>

lemma set_py_sort_reverse: "set (py_sort_reverse f xs) = set xs"
  by (simp add: py_sort_reverse_def)

lemma length_py_sort_reverse: "length (py_sort_reverse f xs) = length xs"
  by (simp add: py_sort_reverse_def)

lemma sorted_py_sort_reverse: "sorted_wrt (\<lambda>a b. f b \<le> f a) (py_sort_reverse f xs)"
proof -
  have "sorted (map f (sort_key f (rev xs)))" by (rule sorted_sort_key)
  then have "sorted_wrt (\<lambda>a b. f a \<le> f b) (sort_key f (rev xs))" by (simp add: sorted_map)
  then show ?thesis by (simp add: py_sort_reverse_def sorted_wrt_rev)
qed

lemma set_py_slice_to: "set (py_slice_to xs n) \<subseteq> set xs"
  by (auto simp: py_slice_to_def dest: in_set_takeD)

lemma sorted_wrt_py_slice_to: "sorted_wrt P xs \<Longrightarrow> sorted_wrt P (py_slice_to xs n)"
  by (simp add: py_slice_to_def sorted_wrt_take)

lemma length_py_slice_to: "0 \<le> n \<Longrightarrow> length (py_slice_to xs n) = min (length xs) (nat n)"
  by (simp add: py_slice_to_def)

subsection \<open>Skill gaps\<close>

lemma dict_get_in_set:
  "dict_get d k dflt = dflt \<or> (k, dict_get d k dflt) \<in> set d"
  by (auto simp: dict_get_def split: option.splits dest: map_of_SomeD)

lemma skill_gap_loop_sound:
  "g \<in> set (skill_gap_loop current required) \<Longrightarrow>
     (skill_name g, required_level g) \<in> set required
     \<and> current_level g = dict_get current (skill_name g) 0
     \<and> gap g = required_level g - current_level g \<and> gap g > 0
     \<and> priority g = (if gap g \<ge> 3 then ''high'' else if gap g \<ge> 2 then ''medium'' else ''low'')"
proof (induction required)
  case Nil
  then show ?case by simp
next
  case (Cons a required)
  obtain s r where a: "a = (s, r)" by (cases a)
  from Cons show ?case
    by (auto simp: a Let_def split: if_splits)
qed

lemma skill_gap_loop_complete:
  "(s, r) \<in> set required \<Longrightarrow> r - dict_get current s 0 > 0 \<Longrightarrow>
     s \<in> skill_name ` set (skill_gap_loop current required)"
proof (induction required)
  case Nil
  then show ?case by simp
next
  case (Cons a required)
  obtain s' r' where a: "a = (s', r')" by (cases a)
  from Cons show ?case
    by (auto simp: a Let_def image_iff)
qed

lemma skill_gap_loop_priority:
  "g \<in> set (skill_gap_loop current required) \<Longrightarrow> priority g \<in> fst ` set priority_order"
  by (drule skill_gap_loop_sound) (auto simp: priority_order_def)

text \<open>
  Claim C5.  Every gap that \<open>calculate_skill_gap\<close> emits belongs to a required skill, records
  as current level the employee's level (0 when the skill is absent), has
  \<open>gap = required_level - current_level\<close> and a positive gap.  A required skill whose current
  level meets or exceeds the required level never appears in the result, and every other
  required skill does.
\<close>

theorem calculate_skill_gap_positive:
  assumes "distinct (map fst required)"
  shows "(\<forall>g \<in> set (calculate_skill_gap current required).
            (skill_name g, required_level g) \<in> set required
            \<and> current_level g = dict_get current (skill_name g) 0
            \<and> gap g = required_level g - current_level g \<and> gap g > 0)
       \<and> (\<forall>(s, r) \<in> set required.
            (dict_get current s 0 \<ge> r \<longrightarrow> s \<notin> skill_name ` set (calculate_skill_gap current required))
          \<and> (dict_get current s 0 < r \<longrightarrow> s \<in> skill_name ` set (calculate_skill_gap current required)))"
proof -
  have same: "set (calculate_skill_gap current required) = set (skill_gap_loop current required)"
    by (simp add: calculate_skill_gap_def set_py_sort_reverse)
  have emitted: "(skill_name g, required_level g) \<in> set required
            \<and> current_level g = dict_get current (skill_name g) 0
            \<and> gap g = required_level g - current_level g \<and> gap g > 0"
    if "g \<in> set (calculate_skill_gap current required)" for g
    using skill_gap_loop_sound [of g current required] that same by simp
  have met: "s \<notin> skill_name ` set (calculate_skill_gap current required)"
    if x: "(s, r) \<in> set required" and ge: "dict_get current s 0 \<ge> r" for s r
  proof
    assume "s \<in> skill_name ` set (calculate_skill_gap current required)"
    then obtain g where g: "g \<in> set (calculate_skill_gap current required)" and n: "skill_name g = s"
      by auto
    from emitted [OF g] n
    have m: "(s, required_level g) \<in> set required" and c: "current_level g = dict_get current s 0"
      and p: "required_level g - current_level g > 0" by auto
    from assms m x have "required_level g = r" by (metis eq_key_imp_eq_value)
    with c p ge show False by simp
  qed
  have unmet: "s \<in> skill_name ` set (calculate_skill_gap current required)"
    if "(s, r) \<in> set required" and "dict_get current s 0 < r" for s r
    using skill_gap_loop_complete [of s r required current] that same by simp
  show ?thesis using emitted met unmet by blast
qed

theorem calculate_skill_gap_positive_witness:
  "distinct (map fst [(''python'', 4::int), (''sql'', 3), (''excel'', 2)])
   \<and> dict_get [(''python'', 2), (''excel'', 5)] ''excel'' 0 \<ge> (2::int)
   \<and> ''excel'' \<notin> skill_name ` set (calculate_skill_gap [(''python'', 2), (''excel'', 5)]
                        [(''python'', 4), (''sql'', 3), (''excel'', 2)])
   \<and> ''sql'' \<in> skill_name ` set (calculate_skill_gap [(''python'', 2), (''excel'', 5)]
                        [(''python'', 4), (''sql'', 3), (''excel'', 2)])"
proof -
  have d: "distinct (map fst [(''python'', 4::int), (''sql'', 3), (''excel'', 2)])" by simp
  have c: "dict_get [(''python'', 2), (''excel'', 5)] ''excel'' 0 \<ge> (2::int)"
    and c': "dict_get [(''python'', 2), (''excel'', 5)] ''sql'' 0 < (3::int)"
    by (simp_all add: dict_get_def)
  have m: "(''excel'', 2::int) \<in> set [(''python'', 4), (''sql'', 3), (''excel'', 2)]"
    and m': "(''sql'', 3::int) \<in> set [(''python'', 4), (''sql'', 3), (''excel'', 2)]" by simp_all
  from calculate_skill_gap_positive [OF d, of "[(''python'', 2), (''excel'', 5)]"] c c' m m'
  show ?thesis using d by blast
qed

text \<open>
  Claim C6.  For \<open>current = {python: 2}\<close> and \<open>required = {python: 4, sql: 3}\<close> the result is
  the gap of sql (0 to 3, gap 3, high) followed by the gap of python (2 to 4, gap 2, medium).
  In general the priority of an emitted gap is high exactly when the gap is at least 3, medium
  exactly when it is 2 and low exactly when it is 1, and the result is in descending order of
  the pair (gap, priority weight).
\<close>

theorem calculate_skill_gap_priority_sorted:
  "calculate_skill_gap [(''python'', 2)] [(''python'', 4), (''sql'', 3)] =
     [\<lparr>skill_name = ''sql'', current_level = 0, required_level = 3, gap = 3, priority = ''high''\<rparr>,
      \<lparr>skill_name = ''python'', current_level = 2, required_level = 4, gap = 2, priority = ''medium''\<rparr>]
   \<and> (\<forall>g \<in> set (calculate_skill_gap current required).
          (priority g = ''high'' \<longleftrightarrow> gap g \<ge> 3)
        \<and> (priority g = ''medium'' \<longleftrightarrow> gap g = 2)
        \<and> (priority g = ''low'' \<longleftrightarrow> gap g = 1))
   \<and> sorted_wrt (\<lambda>a b. (gap b, dict_get priority_order (priority b) 0)
                          \<le> (gap a, dict_get priority_order (priority a) 0))
        (calculate_skill_gap current required)"
proof -
  have example: "calculate_skill_gap [(''python'', 2)] [(''python'', 4), (''sql'', 3)] =
     [\<lparr>skill_name = ''sql'', current_level = 0, required_level = 3, gap = 3, priority = ''high''\<rparr>,
      \<lparr>skill_name = ''python'', current_level = 2, required_level = 4, gap = 2, priority = ''medium''\<rparr>]"
    by (simp add: calculate_skill_gap_def py_sort_reverse_def gap_sort_key_def dict_get_def
          priority_order_def)
  have rule: "(priority g = ''high'' \<longleftrightarrow> gap g \<ge> 3)
        \<and> (priority g = ''medium'' \<longleftrightarrow> gap g = 2)
        \<and> (priority g = ''low'' \<longleftrightarrow> gap g = 1)"
    if "g \<in> set (calculate_skill_gap current required)" for g
  proof -
    from that have "g \<in> set (skill_gap_loop current required)"
      by (simp add: calculate_skill_gap_def set_py_sort_reverse)
    from skill_gap_loop_sound [OF this]
    have p: "priority g = (if gap g \<ge> 3 then ''high'' else if gap g \<ge> 2 then ''medium'' else ''low'')"
      and pos: "gap g > 0" by simp_all
    show ?thesis using pos by (auto simp: p)
  qed
  have order: "sorted_wrt (\<lambda>a b. (gap b, dict_get priority_order (priority b) 0)
                          \<le> (gap a, dict_get priority_order (priority a) 0))
        (calculate_skill_gap current required)"
    using sorted_py_sort_reverse [of gap_sort_key "skill_gap_loop current required"]
    by (simp add: calculate_skill_gap_def gap_sort_key_def)
  show ?thesis using example rule order by blast
qed

theorem calculate_skill_gap_priority_sorted_witness:
  "\<lparr>skill_name = ''sql'', current_level = 0, required_level = 4, gap = 4, priority = ''high''\<rparr>
     \<in> set (calculate_skill_gap [(''go'', 1)] [(''go'', 2), (''sql'', 4)])
   \<and> \<lparr>skill_name = ''go'', current_level = 1, required_level = 2, gap = 1, priority = ''low''\<rparr>
     \<in> set (calculate_skill_gap [(''go'', 1)] [(''go'', 2), (''sql'', 4)])
   \<and> sorted_wrt (\<lambda>a b. (gap b, dict_get priority_order (priority b) 0)
                          \<le> (gap a, dict_get priority_order (priority a) 0))
        (calculate_skill_gap [(''go'', 1)] [(''go'', 2), (''sql'', 4)])"
  using calculate_skill_gap_priority_sorted [of "[(''go'', 1)]" "[(''go'', 2), (''sql'', 4)]"]
  by (simp add: calculate_skill_gap_def py_sort_reverse_def gap_sort_key_def dict_get_def
        priority_order_def)

subsection \<open>Match score\<close>

lemma required_loop_sums:
  "required_loop e req (t, m) =
     (t + (\<Sum>(s, r)\<leftarrow>req. min (dict_get e s 0) r), m + (\<Sum>(s, r)\<leftarrow>req. r))"
proof (induction req arbitrary: t m)
  case Nil
  then show ?case by simp
next
  case (Cons a req)
  obtain s r where a: "a = (s, r)" by (cases a)
  show ?case by (simp add: a Cons.IH Let_def min_def)
qed

lemma preferred_loop_sums:
  "preferred_loop e pref (b, m) =
     (b + (\<Sum>(s, r)\<leftarrow>pref. real_of_int (min (dict_get e s 0) r) * 0.5),
      m + (\<Sum>(s, r)\<leftarrow>pref. real_of_int r * 0.5))"
proof (induction pref arbitrary: b m)
  case Nil
  then show ?case by simp
next
  case (Cons a pref)
  obtain s r where a: "a = (s, r)" by (cases a)
  show ?case by (simp add: a Cons.IH Let_def min_def)
qed

lemma calculate_position_match_score_sums:
  "calculate_position_match_score e p =
     (if pos_required_skills p = [] then 0
      else if (\<Sum>(s, r)\<leftarrow>pos_required_skills p. r) > 0
      then (if (\<Sum>(s, r)\<leftarrow>pos_preferred_skills p. real_of_int r * 0.5) > 0
            then min (real_of_int (\<Sum>(s, r)\<leftarrow>pos_required_skills p. min (dict_get e s 0) r)
                        / real_of_int (\<Sum>(s, r)\<leftarrow>pos_required_skills p. r)
                      + (\<Sum>(s, r)\<leftarrow>pos_preferred_skills p. real_of_int (min (dict_get e s 0) r) * 0.5)
                        / (\<Sum>(s, r)\<leftarrow>pos_preferred_skills p. real_of_int r * 0.5) * 0.2) 1
            else real_of_int (\<Sum>(s, r)\<leftarrow>pos_required_skills p. min (dict_get e s 0) r)
                   / real_of_int (\<Sum>(s, r)\<leftarrow>pos_required_skills p. r))
      else 0)"
  by (simp add: calculate_position_match_score_def required_loop_sums preferred_loop_sums Let_def)

lemma sum_levels_zero:
  "\<forall>(s, r) \<in> set req. r = (0::int) \<Longrightarrow> (\<Sum>(s, r)\<leftarrow>req. r) = 0"
  by (induction req) auto

text \<open>
  Claim C10.  When \<open>required_skills\<close> is not empty and every required level is 0, the sum of
  the required levels is 0, the guard \<open>max_possible_score > 0\<close> fails and the score is 0:
  no division by zero takes place.
\<close>

theorem match_score_zero_levels:
  assumes "pos_required_skills p \<noteq> []"
      and "\<forall>(s, r) \<in> set (pos_required_skills p). r = 0"
  shows "calculate_position_match_score e p = 0"
  using sum_levels_zero [OF assms(2)] by (simp add: calculate_position_match_score_sums)


theorem match_score_zero_levels_witness:
  "pos_required_skills
      \<lparr>pos_id = ''P7'', pos_title = ''Intern'', pos_department = ''Ops'', pos_level = ''entry'',
       pos_required_skills = [(''python'', 0), (''sql'', 0)], pos_preferred_skills = [(''excel'', 2)],
       pos_description = None, pos_is_open = True\<rparr> \<noteq> []
   \<and> calculate_position_match_score [(''python'', 3), (''excel'', 2)]
      \<lparr>pos_id = ''P7'', pos_title = ''Intern'', pos_department = ''Ops'', pos_level = ''entry'',
       pos_required_skills = [(''python'', 0), (''sql'', 0)], pos_preferred_skills = [(''excel'', 2)],
       pos_description = None, pos_is_open = True\<rparr> = 0"
proof -
  let ?p = "\<lparr>pos_id = ''P7'', pos_title = ''Intern'', pos_department = ''Ops'', pos_level = ''entry'',
       pos_required_skills = [(''python'', 0), (''sql'', 0)], pos_preferred_skills = [(''excel'', 2)],
       pos_description = None, pos_is_open = True\<rparr>"
  have n: "pos_required_skills ?p \<noteq> []" by simp
  have z: "\<forall>(s, r) \<in> set (pos_required_skills ?p). r = 0" by simp
  from match_score_zero_levels [OF n z, of "[(''python'', 3), (''excel'', 2)]"] n
  show ?thesis by simp
qed

lemma dict_get_nonneg:
  "\<forall>(s, l) \<in> set e. (0::int) \<le> l \<Longrightarrow> 0 \<le> dict_get e k 0"
  using dict_get_in_set [of e k 0] by auto

lemma sum_min_bounds:
  assumes "\<forall>(s, l) \<in> set e. (0::int) \<le> l" and "\<forall>(s, l) \<in> set req. 0 \<le> l"
  shows "0 \<le> (\<Sum>(s, r)\<leftarrow>req. min (dict_get e s 0) r)
       \<and> (\<Sum>(s, r)\<leftarrow>req. min (dict_get e s 0) r) \<le> (\<Sum>(s, r)\<leftarrow>req. r)"
  using assms(2)
proof (induction req)
  case Nil
  then show ?case by simp
next
  case (Cons a req)
  obtain s r where a: "a = (s, r)" by (cases a)
  have "0 \<le> dict_get e s 0" by (rule dict_get_nonneg [OF assms(1)])
  with Cons show ?case by (auto simp: a)
qed

lemma sum_levels_positive:
  "req \<noteq> [] \<Longrightarrow> \<forall>(s, l) \<in> set req. (1::int) \<le> l \<Longrightarrow> 0 < (\<Sum>(s, r)\<leftarrow>req. r)"
proof (induction req)
  case Nil
  then show ?case by simp
next
  case (Cons a req)
  obtain s r where a: "a = (s, r)" by (cases a)
  show ?case
  proof (cases "req = []")
    case True
    with Cons.prems show ?thesis by (simp add: a)
  next
    case False
    with Cons show ?thesis by (simp add: a)
  qed
qed

lemma sum_bonus_bounds:
  assumes "\<forall>(s, l) \<in> set e. (0::int) \<le> l" and "\<forall>(s, l) \<in> set pref. 0 \<le> l"
  shows "0 \<le> (\<Sum>(s, r)\<leftarrow>pref. real_of_int (min (dict_get e s 0) r) * 0.5)
       \<and> (\<Sum>(s, r)\<leftarrow>pref. real_of_int (min (dict_get e s 0) r) * 0.5)
           \<le> (\<Sum>(s, r)\<leftarrow>pref. real_of_int r * 0.5)"
  using assms(2)
proof (induction pref)
  case Nil
  then show ?case by simp
next
  case (Cons a pref)
  obtain s r where a: "a = (s, r)" by (cases a)
  have "0 \<le> dict_get e s 0" by (rule dict_get_nonneg [OF assms(1)])
  with Cons show ?case by (auto simp: a)
qed

text \<open>
  Claim C7.  With the employee's levels in 0..5, the required levels in 1..5 and the preferred
  levels in 0..5, the score lies in [0, 1]; it is 0 when \<open>required_skills\<close> is empty;
  otherwise, with \<open>base\<close> the sum of \<open>min(current, required)\<close> over the sum of the required
  levels, it is \<open>min(base + bonus_ratio * 0.2, 1)\<close> when the preferred levels have a positive
  total (\<open>bonus_ratio\<close> being the halved sum of \<open>min(current, preferred)\<close> over the halved sum
  of the preferred levels) and \<open>base\<close> when they have not.
\<close>

theorem match_score_range_and_formula:
  assumes emp: "\<forall>(s, l) \<in> set e. 0 \<le> l \<and> l \<le> 5"
      and req: "\<forall>(s, l) \<in> set (pos_required_skills p). 1 \<le> l \<and> l \<le> 5"
      and pref: "\<forall>(s, l) \<in> set (pos_preferred_skills p). 0 \<le> l \<and> l \<le> 5"
  shows "0 \<le> calculate_position_match_score e p \<and> calculate_position_match_score e p \<le> 1
     \<and> (pos_required_skills p = [] \<longrightarrow> calculate_position_match_score e p = 0)
     \<and> (pos_required_skills p \<noteq> [] \<longrightarrow>
          (let base = real_of_int (\<Sum>(s, r)\<leftarrow>pos_required_skills p. min (dict_get e s 0) r)
                        / real_of_int (\<Sum>(s, r)\<leftarrow>pos_required_skills p. r);
               bonus_score = (\<Sum>(s, r)\<leftarrow>pos_preferred_skills p. real_of_int (min (dict_get e s 0) r) * 0.5);
               bonus_max = (\<Sum>(s, r)\<leftarrow>pos_preferred_skills p. real_of_int r * 0.5)
           in (bonus_max > 0 \<longrightarrow>
                 calculate_position_match_score e p = min (base + bonus_score / bonus_max * 0.2) 1)
            \<and> (\<not> bonus_max > 0 \<longrightarrow> calculate_position_match_score e p = base)))"
proof -
  define T where "T = (\<Sum>(s, r)\<leftarrow>pos_required_skills p. min (dict_get e s 0) r)"
  define R where "R = (\<Sum>(s, r)\<leftarrow>pos_required_skills p. r)"
  define B where "B = (\<Sum>(s, r)\<leftarrow>pos_preferred_skills p. real_of_int (min (dict_get e s 0) r) * 0.5)"
  define M where "M = (\<Sum>(s, r)\<leftarrow>pos_preferred_skills p. real_of_int r * 0.5)"
  have e0: "\<forall>(s, l) \<in> set e. 0 \<le> l" using emp by auto
  have r0: "\<forall>(s, l) \<in> set (pos_required_skills p). 0 \<le> l" using req by fastforce
  have r1: "\<forall>(s, l) \<in> set (pos_required_skills p). 1 \<le> l" using req by auto
  have p0: "\<forall>(s, l) \<in> set (pos_preferred_skills p). 0 \<le> l" using pref by auto
  have T: "0 \<le> T" "T \<le> R" using sum_min_bounds [OF e0 r0] by (simp_all add: T_def R_def)
  have B: "0 \<le> B" "B \<le> M" using sum_bonus_bounds [OF e0 p0] by (simp_all add: B_def M_def)
  have Rpos: "0 < R" if "pos_required_skills p \<noteq> []"
    using sum_levels_positive [OF that r1] by (simp add: R_def)
  have score: "calculate_position_match_score e p =
     (if pos_required_skills p = [] then 0
      else if R > 0 then (if M > 0 then min (real_of_int T / real_of_int R + B / M * 0.2) 1
                          else real_of_int T / real_of_int R)
      else 0)"
    unfolding T_def R_def B_def M_def by (rule calculate_position_match_score_sums)
  have base: "0 \<le> real_of_int T / real_of_int R \<and> real_of_int T / real_of_int R \<le> 1" if "0 < R"
    using T that by simp
  have ratio: "0 \<le> B / M * 0.2" if "0 < M" using B that by simp
  have range: "0 \<le> calculate_position_match_score e p \<and> calculate_position_match_score e p \<le> 1"
  proof (cases "pos_required_skills p = [] \<or> \<not> R > 0")
    case True
    then show ?thesis by (auto simp: score)
  next
    case False
    then have R: "0 < R" by simp
    show ?thesis
    proof (cases "M > 0")
      case True
      with base [OF R] ratio [OF True] False show ?thesis by (simp add: score min_def)
    next
      case False
      with base [OF R] \<open>\<not> (pos_required_skills p = [] \<or> \<not> R > 0)\<close> show ?thesis
        by (simp add: score)
    qed
  qed
  have empty: "pos_required_skills p = [] \<longrightarrow> calculate_position_match_score e p = 0"
    by (simp add: score)
  have formula: "pos_required_skills p \<noteq> [] \<longrightarrow>
          (let base = real_of_int T / real_of_int R; bonus_score = B; bonus_max = M
           in (bonus_max > 0 \<longrightarrow>
                 calculate_position_match_score e p = min (base + bonus_score / bonus_max * 0.2) 1)
            \<and> (\<not> bonus_max > 0 \<longrightarrow> calculate_position_match_score e p = base))"
    using Rpos by (simp add: score Let_def)
  show ?thesis using range empty formula unfolding T_def R_def B_def M_def by blast
qed

theorem match_score_range_and_formula_witness:
  "calculate_position_match_score [(''python'', 4), (''sql'', 2)]
      \<lparr>pos_id = ''P1'', pos_title = ''Data Analyst'', pos_department = ''Data'', pos_level = ''mid'',
       pos_required_skills = [(''python'', 4)], pos_preferred_skills = [(''sql'', 2)],
       pos_description = None, pos_is_open = True\<rparr> = 1
   \<and> 0 \<le> calculate_position_match_score [(''python'', 4), (''sql'', 2)]
      \<lparr>pos_id = ''P1'', pos_title = ''Data Analyst'', pos_department = ''Data'', pos_level = ''mid'',
       pos_required_skills = [(''python'', 4)], pos_preferred_skills = [(''sql'', 2)],
       pos_description = None, pos_is_open = True\<rparr>"
proof -
  let ?p = "\<lparr>pos_id = ''P1'', pos_title = ''Data Analyst'', pos_department = ''Data'', pos_level = ''mid'',
       pos_required_skills = [(''python'', 4)], pos_preferred_skills = [(''sql'', 2)],
       pos_description = None, pos_is_open = True\<rparr>"
  have h1: "\<forall>(s, l) \<in> set [(''python'', 4::int), (''sql'', 2)]. 0 \<le> l \<and> l \<le> 5" by simp
  have h2: "\<forall>(s, l) \<in> set (pos_required_skills ?p). 1 \<le> l \<and> l \<le> 5" by simp
  have h3: "\<forall>(s, l) \<in> set (pos_preferred_skills ?p). 0 \<le> l \<and> l \<le> 5" by simp
  from match_score_range_and_formula [OF h1 h2 h3]
  show ?thesis by (simp add: dict_get_def)
qed

subsection \<open>Ranked matches\<close>

lemma length_py_slice_to_le: "0 \<le> n \<Longrightarrow> int (length (py_slice_to xs n)) \<le> n"
  by (simp add: py_slice_to_def)

lemma matches_loop_sound:
  "m \<in> set (matches_loop cfg e ps) \<Longrightarrow>
     match_score m = calculate_position_match_score (emp_skills e) (pm_position m)
     \<and> match_score m \<ge> SKILL_MATCH_THRESHOLD cfg \<and> pm_position m \<in> set ps"
  by (induction ps) (auto simp: Let_def split: if_splits)

text \<open>
  Claim C8.  Every match returned by \<open>find_position_matches\<close> is for a position that was
  checked, carries that position's score, and the score is at least the configured threshold;
  the list is in non-increasing order of score; and, the configured count being a count (not
  negative), the list is no longer than it.
\<close>

theorem find_position_matches_ranked:
  "(\<forall>m \<in> set (find_position_matches cfg d e include_current).
       match_score m = calculate_position_match_score (emp_skills e) (pm_position m)
     \<and> match_score m \<ge> SKILL_MATCH_THRESHOLD cfg
     \<and> pm_position m \<in> set (get_open_positions d
                               @ (if include_current then get_current_positions d else [])))
   \<and> sorted_wrt (\<lambda>a b. match_score b \<le> match_score a)
        (find_position_matches cfg d e include_current)
   \<and> (0 \<le> RECOMMENDATION_COUNT cfg \<longrightarrow>
        int (length (find_position_matches cfg d e include_current)) \<le> RECOMMENDATION_COUNT cfg)"
proof -
  let ?ps = "get_open_positions d @ (if include_current then get_current_positions d else [])"
  let ?ms = "matches_loop cfg e ?ps"
  have res: "find_position_matches cfg d e include_current =
               py_slice_to (py_sort_reverse match_score ?ms) (RECOMMENDATION_COUNT cfg)"
    by (simp add: find_position_matches_def Let_def)
  have sub: "set (find_position_matches cfg d e include_current) \<subseteq> set ?ms"
    using set_py_slice_to [of "py_sort_reverse match_score ?ms" "RECOMMENDATION_COUNT cfg"]
    by (simp add: res set_py_sort_reverse)
  have kept: "\<forall>m \<in> set (find_position_matches cfg d e include_current).
       match_score m = calculate_position_match_score (emp_skills e) (pm_position m)
     \<and> match_score m \<ge> SKILL_MATCH_THRESHOLD cfg \<and> pm_position m \<in> set ?ps"
    using sub matches_loop_sound [of _ cfg e ?ps] by blast
  have ranked: "sorted_wrt (\<lambda>a b. match_score b \<le> match_score a)
        (find_position_matches cfg d e include_current)"
    unfolding res by (rule sorted_wrt_py_slice_to) (rule sorted_py_sort_reverse)
  have short: "0 \<le> RECOMMENDATION_COUNT cfg \<longrightarrow>
        int (length (find_position_matches cfg d e include_current)) \<le> RECOMMENDATION_COUNT cfg"
    unfolding res using length_py_slice_to_le [of "RECOMMENDATION_COUNT cfg"] by blast
  show ?thesis using kept ranked short by blast
qed

theorem find_position_matches_ranked_witness:
  "0 \<le> RECOMMENDATION_COUNT example_config
   \<and> map match_score
        (find_position_matches example_config
           \<lparr>current_positions = [],
            open_positions = [example_position ''P3'' ''DBA'' [(''sql'', 3)],
                              example_position ''P2'' ''Senior Developer'' [(''python'', 5)],
                              example_position ''P1'' ''Developer'' [(''python'', 4)]]\<rparr>
           (example_employee [(''python'', 4)]) False) = [1, 4 / 5]
   \<and> int (length
        (find_position_matches example_config
           \<lparr>current_positions = [],
            open_positions = [example_position ''P3'' ''DBA'' [(''sql'', 3)],
                              example_position ''P2'' ''Senior Developer'' [(''python'', 5)],
                              example_position ''P1'' ''Developer'' [(''python'', 4)]]\<rparr>
           (example_employee [(''python'', 4)]) False)) \<le> RECOMMENDATION_COUNT example_config"
proof -
  let ?d = "\<lparr>current_positions = [],
            open_positions = [example_position ''P3'' ''DBA'' [(''sql'', 3)],
                              example_position ''P2'' ''Senior Developer'' [(''python'', 5)],
                              example_position ''P1'' ''Developer'' [(''python'', 4)]]\<rparr>"
  have c: "0 \<le> RECOMMENDATION_COUNT example_config" by (simp add: example_config_def)
  have s: "map match_score
             (find_position_matches example_config ?d (example_employee [(''python'', 4)]) False)
           = [1, 4 / 5]"
    by (simp add: find_position_matches_def get_open_positions_def example_position_def
          example_employee_def example_config_def calculate_position_match_score_def dict_get_def
          py_sort_reverse_def py_slice_to_def Let_def)
  from find_position_matches_ranked [of example_config ?d "example_employee [(''python'', 4)]" False]
  show ?thesis using c s by blast
qed

subsection \<open>Estimated duration\<close>

text \<open>
  Claim C1.  The claim reads ``6-8 weeks'' as 6 weeks, 60 hours, and the two resources as 180
  hours, ``4 months''.  The code joins every digit before the unit, so that the range reads as
  68 weeks, 680 hours: for the resources that \<open>_generate_basic_resources\<close> itself proposes
  for Python and machine learning, whose durations are ``6-8 weeks'' and ``3 months'', the
  hours are 680 and 120 and the estimate is ``20 months''.
\<close>

theorem estimated_duration_joins_range_digits:
  "map res_duration
     (generate_basic_resources
        (calculate_skill_gap [] [(''python'', 3), (''machine_learning'', 3)]) 10)
     = [''6-8 weeks'', ''3 months'']
   \<and> map resource_hours
       (generate_basic_resources
          (calculate_skill_gap [] [(''python'', 3), (''machine_learning'', 3)]) 10)
     = [680, 120]
   \<and> calculate_estimated_duration
       (generate_basic_resources
          (calculate_skill_gap [] [(''python'', 3), (''machine_learning'', 3)]) 10)
     = ''20 months''"
proof -
  have gaps: "calculate_skill_gap [] [(''python'', 3), (''machine_learning'', 3)] =
     [\<lparr>skill_name = ''python'', current_level = 0, required_level = 3, gap = 3, priority = ''high''\<rparr>,
      \<lparr>skill_name = ''machine_learning'', current_level = 0, required_level = 3, gap = 3,
        priority = ''high''\<rparr>]"
    by (simp add: calculate_skill_gap_def py_sort_reverse_def gap_sort_key_def dict_get_def
          priority_order_def)
  have durations: "map res_duration
     (generate_basic_resources
        (calculate_skill_gap [] [(''python'', 3), (''machine_learning'', 3)]) 10)
     = [''6-8 weeks'', ''3 months'']"
    by (simp add: gaps generate_basic_resources_def py_slice_to_def enumerate_eq_zip
          basic_resource_def basic_templates_def dict_get_def Let_def upt_rec)
  have hours: "map resource_hours
       (generate_basic_resources
          (calculate_skill_gap [] [(''python'', 3), (''machine_learning'', 3)]) 10)
     = [680, 120]"
    by (simp add: gaps generate_basic_resources_def py_slice_to_def enumerate_eq_zip
          basic_resource_def basic_templates_def dict_get_def Let_def upt_rec
          resource_hours_def lower_def lower_char_def digits_before_def int_of_digits_def
          isdigit_def digit_value_def)
  have total: "calculate_estimated_duration rs = ''20 months''"
    if "map resource_hours rs = [680, 120]" for rs
  proof -
    from that obtain a b where rs: "rs = [a, b]" and a: "resource_hours a = 680"
      and b: "resource_hours b = 120" by auto
    show ?thesis
      by (simp add: rs a b calculate_estimated_duration_def str_int_def str_nat.simps digit_char_def)
  qed
  show ?thesis using durations hours total [OF hours] by simp
qed

subsection \<open>Development time\<close>

lemma total_months_loop_sum:
  "foldl (\<lambda>total g. total + real_of_int (gap g) * 1.5) a gs
     = a + real_of_int (\<Sum>g\<leftarrow>gs. gap g) * 1.5"
  by (induction gs arbitrary: a) (simp_all add: algebra_simps)

lemma py_int_three_halves:
  assumes "0 \<le> S"
  shows "py_int (real_of_int S * 1.5) = (3 * S) div 2"
proof -
  have "real_of_int S * 1.5 = real_of_int (3 * S) / real_of_int 2" by simp
  then have "\<lfloor>real_of_int S * 1.5\<rfloor> = (3 * S) div 2"
    by (simp only: floor_divide_of_int_eq)
  moreover have "0 \<le> real_of_int S * 1.5" using assms by simp
  ultimately show ?thesis by (simp add: py_int_def)
qed

lemma calculate_skill_gap_sum_nonneg:
  "0 \<le> (\<Sum>g\<leftarrow>calculate_skill_gap current required. gap g)"
proof -
  have "0 \<le> gap g" if "g \<in> set (calculate_skill_gap current required)" for g
  proof -
    from that have "g \<in> set (skill_gap_loop current required)"
      by (simp add: calculate_skill_gap_def set_py_sort_reverse)
    from skill_gap_loop_sound [OF this] show ?thesis by simp
  qed
  then show ?thesis by (intro sum_list_nonneg) auto
qed

text \<open>
  Claim C3, as amended.  When the target position exists, the reported development time is
  \<open>int(\<Sum> gap * 1.5)\<close> months over the gaps to that position: the sum is truncated, not
  rounded, which is \<open>(3 * \<Sum> gap) div 2\<close>.
\<close>

theorem development_time_truncated:
  assumes "analyze_career_progression d e target_id = Some r"
  shows "\<exists>p. get_position_by_id d target_id = Some p
           \<and> prog_skill_gaps r = calculate_skill_gap (emp_skills e) (pos_required_skills p)
           \<and> estimated_development_time r
               = str_int ((3 * (\<Sum>g\<leftarrow>prog_skill_gaps r. gap g)) div 2) @ '' months''"
proof (cases "get_position_by_id d target_id")
  case None
  with assms show ?thesis by (simp add: analyze_career_progression_def)
next
  case (Some p)
  let ?gs = "calculate_skill_gap (emp_skills e) (pos_required_skills p)"
  from assms Some have gaps: "prog_skill_gaps r = ?gs"
    and time: "estimated_development_time r = str_int (py_int (total_months_loop ?gs)) @ '' months''"
    by (auto simp: analyze_career_progression_def Let_def)
  have "total_months_loop ?gs = real_of_int (\<Sum>g\<leftarrow>?gs. gap g) * 1.5"
    using total_months_loop_sum [of 0 ?gs] by (simp add: total_months_loop_def)
  then have "py_int (total_months_loop ?gs) = (3 * (\<Sum>g\<leftarrow>?gs. gap g)) div 2"
    by (simp only: py_int_three_halves [OF calculate_skill_gap_sum_nonneg])
  with Some gaps time show ?thesis by simp
qed

theorem development_time_truncated_witness:
  "map_option estimated_development_time
     (analyze_career_progression
        \<lparr>current_positions = [],
         open_positions = [example_position ''P1'' ''Developer'' [(''python'', 3), (''sql'', 2)]]\<rparr>
        (example_employee [(''sql'', 2)]) ''P1'') = Some ''4 months''"
proof -
  let ?d = "\<lparr>current_positions = [],
         open_positions = [example_position ''P1'' ''Developer'' [(''python'', 3), (''sql'', 2)]]\<rparr>"
  let ?e = "example_employee [(''sql'', 2)]"
  have pos: "get_position_by_id ?d ''P1''
               = Some (example_position ''P1'' ''Developer'' [(''python'', 3), (''sql'', 2)])"
    by (simp add: get_position_by_id_def example_position_def)
  obtain r where r: "analyze_career_progression ?d ?e ''P1'' = Some r"
    by (simp add: analyze_career_progression_def pos Let_def)
  from development_time_truncated [OF r] pos
  have gaps: "prog_skill_gaps r = calculate_skill_gap (emp_skills ?e) [(''python'', 3), (''sql'', 2)]"
    and time: "estimated_development_time r
                 = str_int ((3 * (\<Sum>g\<leftarrow>prog_skill_gaps r. gap g)) div 2) @ '' months''"
    by (auto simp: example_position_def)
  have "(\<Sum>g\<leftarrow>prog_skill_gaps r. gap g) = 3"
    by (simp add: gaps example_employee_def calculate_skill_gap_def py_sort_reverse_def
          gap_sort_key_def dict_get_def priority_order_def)
  with time have "estimated_development_time r = ''4 months''"
    by (simp add: str_int_def str_nat.simps digit_char_def)
  with r show ?thesis by simp
qed

text \<open>
  Claim C3 as stated fails: a single gap of 1 gives 1.5, which \<open>int\<close> truncates to
  ``1 months'', not the ``2 months'' of \<open>round(1.5)\<close>.
\<close>

theorem development_time_round_counterexample:
  "map_option (map gap \<circ> prog_skill_gaps)
     (analyze_career_progression
        \<lparr>current_positions = [],
         open_positions = [example_position ''P1'' ''Developer'' [(''python'', 1)]]\<rparr>
        (example_employee []) ''P1'') = Some [1]
   \<and> map_option estimated_development_time
     (analyze_career_progression
        \<lparr>current_positions = [],
         open_positions = [example_position ''P1'' ''Developer'' [(''python'', 1)]]\<rparr>
        (example_employee []) ''P1'') = Some ''1 months''
   \<and> map_option estimated_development_time
     (analyze_career_progression
        \<lparr>current_positions = [],
         open_positions = [example_position ''P1'' ''Developer'' [(''python'', 1)]]\<rparr>
        (example_employee []) ''P1'') \<noteq> Some ''2 months''"
  by (simp add: analyze_career_progression_def get_position_by_id_def example_position_def
        example_employee_def calculate_skill_gap_def py_sort_reverse_def gap_sort_key_def
        dict_get_def priority_order_def total_months_loop_def py_int_def Let_def
        str_int_def str_nat.simps digit_char_def)

subsection \<open>Resource generation\<close>

lemma length_strip_le: "length (strip s) \<le> length s"
proof -
  have "length (strip s) \<le> length (dropWhile is_space s)"
    using length_dropWhile_le [of is_space "rev (dropWhile is_space s)"] by (simp add: strip_def)
  also have "\<dots> \<le> length s" by (rule length_dropWhile_le)
  finally show ?thesis .
qed

lemma chat_response_loop_short:
  assumes "\<forall>a \<in> set as. \<forall>c. remote a = Ok200 c \<longrightarrow> length (strip c) \<le> 50"
  shows "case chat_response_loop remote as of Inl e \<Rightarrow> True | Inr t \<Rightarrow> length (strip t) \<le> 50"
  using assms
proof (induction as)
  case Nil
  then show ?case by simp
next
  case (Cons a as)
  show ?case
  proof (cases "remote a")
    case (Ok200 c)
    with Cons.prems have "length (strip c) \<le> 50" by simp
    moreover have "length (strip (strip c)) \<le> length (strip c)" by (rule length_strip_le)
    ultimately show ?thesis using Ok200 by (simp add: strip_def)
  qed (use Cons in simp_all)
qed

lemma generate_learning_resources_returns:
  "\<exists>rs. generate_learning_resources cfg remote parse gaps m = Inr rs"
  by (simp add: generate_learning_resources_def split: sum.split)

lemma template_loop_length:
  "length (fst (template_loop skill ts (rs, rid))) = length rs + length ts"
  by (induction ts arbitrary: rs rid) simp_all

lemma fallback_loop_length:
  "length rs + length gs \<le> nat m \<Longrightarrow>
     length (fallback_loop m gs (rs, rid)) = length rs + length gs"
proof (induction gs arbitrary: rs rid)
  case Nil
  then show ?case by simp
next
  case (Cons g gs)
  define st where "st =
     (if dict_get fallback_templates (skill_name g) [] \<noteq> []
      then template_loop (skill_name g) (py_slice_to (dict_get fallback_templates (skill_name g) []) 1)
             (rs, rid)
      else (rs @ [generic_resource rid g], rid + 1))"
  have len: "length (fst st) = length rs + 1"
  proof (cases "dict_get fallback_templates (skill_name g) [] = []")
    case True
    then show ?thesis by (simp add: st_def)
  next
    case False
    then have "length (py_slice_to (dict_get fallback_templates (skill_name g) []) 1) = 1"
      by (cases "dict_get fallback_templates (skill_name g) []") (simp_all add: py_slice_to_def)
    with False show ?thesis by (simp add: st_def template_loop_length)
  qed
  obtain rs' rid' where st: "st = (rs', rid')" by (cases st)
  with len have rs': "length rs' = length rs + 1" by simp
  have step: "fallback_loop m (g # gs) (rs, rid) =
                (if int (length rs') \<ge> m then rs' else fallback_loop m gs (rs', rid'))"
    using st by (simp add: st_def Let_def)
  show ?case
  proof (cases "int (length rs') \<ge> m")
    case True
    from Cons.prems have "length rs + 1 + length gs \<le> nat m" by simp
    moreover from True rs' have "nat m \<le> length rs + 1" by linarith
    ultimately have "length gs = 0" by linarith
    then have "gs = []" by simp
    with True step rs' show ?thesis by simp
  next
    case False
    from Cons.prems rs' have "length rs' + length gs \<le> nat m" by simp
    from Cons.IH [OF this] False step rs' show ?thesis by simp
  qed
qed

lemma get_fallback_resources_length:
  "0 \<le> m \<Longrightarrow> length (get_fallback_resources gaps m) = min (length gaps) (nat m)"
  using fallback_loop_length [of "[]" "py_slice_to gaps m" m 1]
  by (simp add: get_fallback_resources_def py_slice_to_def)

lemma generate_learning_resources_cases:
  "generate_learning_resources cfg remote parse gaps m = Inr (get_fallback_resources gaps m)
   \<or> (\<exists>t. parse t \<noteq> []
          \<and> generate_learning_resources cfg remote parse gaps m = Inr (py_slice_to (parse t) m))"
  by (auto simp: generate_learning_resources_def split: sum.splits)

lemma py_slice_to_nonempty: "xs \<noteq> [] \<Longrightarrow> 1 \<le> n \<Longrightarrow> py_slice_to xs n \<noteq> []"
  by (cases xs) (auto simp: py_slice_to_def nat_le_iff dest!: take_eq_Nil [THEN iffD1])

text \<open>
  Claim C2, as amended.  For every list of gaps and every \<open>max_resources\<close>,
  \<open>generate_learning_resources\<close> returns a list and raises nothing.  When each of the three
  remote attempts fails or answers with at most 50 characters, the result is the offline
  fallback.  Whatever the remote service answers, the result is not empty when there is a gap
  and \<open>max_resources\<close> is at least 1.  The fallback holds
  \<open>min(len(skill_gaps), max_resources)\<close> resources when \<open>max_resources\<close> is not negative:
  it is not empty when there is a gap and \<open>max_resources\<close> is at least 1, and it is empty
  when there is no gap.
\<close>

theorem generate_learning_resources_fallback:
  "(\<exists>rs. generate_learning_resources cfg remote parse gaps m = Inr rs)
   \<and> ((\<forall>a < 3. \<forall>c. remote a = Ok200 c \<longrightarrow> length (strip c) \<le> 50) \<longrightarrow>
        generate_learning_resources cfg remote parse gaps m = Inr (get_fallback_resources gaps m))
   \<and> (gaps \<noteq> [] \<and> 1 \<le> m \<longrightarrow>
        (\<exists>rs. generate_learning_resources cfg remote parse gaps m = Inr rs \<and> rs \<noteq> []))
   \<and> (0 \<le> m \<longrightarrow> length (get_fallback_resources gaps m) = min (length gaps) (nat m))
   \<and> (gaps \<noteq> [] \<and> 1 \<le> m \<longrightarrow> get_fallback_resources gaps m \<noteq> [])
   \<and> get_fallback_resources [] m = []"
proof -
  have failing: "generate_learning_resources cfg remote parse gaps m
                   = Inr (get_fallback_resources gaps m)"
    if "\<forall>a < 3. \<forall>c. remote a = Ok200 c \<longrightarrow> length (strip c) \<le> 50"
  proof -
    from that have "\<forall>a \<in> set [0..<3]. \<forall>c. remote a = Ok200 c \<longrightarrow> length (strip c) \<le> 50" by simp
    from chat_response_loop_short [OF this]
    have "case generate_chat_response remote 3 of Inl e \<Rightarrow> True | Inr t \<Rightarrow> length (strip t) \<le> 50"
      by (simp add: generate_chat_response_def)
    then show ?thesis by (auto simp: generate_learning_resources_def split: sum.splits)
  qed
  have nonempty: "get_fallback_resources gaps m \<noteq> []" if "gaps \<noteq> []" "1 \<le> m"
  proof -
    from that have "length (get_fallback_resources gaps m) = min (length gaps) (nat m)"
      by (simp add: get_fallback_resources_length)
    with that have "0 < length (get_fallback_resources gaps m)" by (cases gaps) simp_all
    then show ?thesis by simp
  qed
  have result: "\<exists>rs. generate_learning_resources cfg remote parse gaps m = Inr rs \<and> rs \<noteq> []"
    if "gaps \<noteq> []" "1 \<le> m"
    using generate_learning_resources_cases [of cfg remote parse gaps m]
      nonempty [OF that] py_slice_to_nonempty [OF _ that(2)] by auto
  have none: "get_fallback_resources [] m = []"
    by (simp add: get_fallback_resources_def py_slice_to_def)
  show ?thesis
    using generate_learning_resources_returns [of cfg remote parse gaps m] failing nonempty none
      result get_fallback_resources_length [of m gaps] by blast
qed

theorem generate_learning_resources_fallback_witness:
  "generate_learning_resources example_config all_timeouts parse_nothing
      (calculate_skill_gap [] [(''python'', 3), (''team_work'', 2)]) 5
     = Inr (get_fallback_resources (calculate_skill_gap [] [(''python'', 3), (''team_work'', 2)]) 5)
   \<and> map res_title
        (get_fallback_resources (calculate_skill_gap [] [(''python'', 3), (''team_work'', 2)]) 5)
     = [''Python for Everybody Specialization'', ''Learn Team Work'']
   \<and> length (get_fallback_resources (calculate_skill_gap [] [(''python'', 3), (''team_work'', 2)]) 5)
     = 2"
proof -
  let ?gaps = "calculate_skill_gap [] [(''python'', 3), (''team_work'', 2)]"
  have fail: "\<forall>a < 3. \<forall>c. all_timeouts a = Ok200 c \<longrightarrow> length (strip c) \<le> 50"
    by (simp add: all_timeouts_def)
  have gaps: "?gaps =
     [\<lparr>skill_name = ''python'', current_level = 0, required_level = 3, gap = 3, priority = ''high''\<rparr>,
      \<lparr>skill_name = ''team_work'', current_level = 0, required_level = 2, gap = 2,
        priority = ''medium''\<rparr>]"
    by (simp add: calculate_skill_gap_def py_sort_reverse_def gap_sort_key_def dict_get_def
          priority_order_def)
  have titles: "map res_title (get_fallback_resources ?gaps 5)
     = [''Python for Everybody Specialization'', ''Learn Team Work'']"
    by (simp add: gaps get_fallback_resources_def py_slice_to_def fallback_templates_def
          dict_get_def templated_resource_def generic_resource_def title_def replace_char_def
          is_lower_def is_upper_def upper_char_def lower_char_def Let_def)
  have five: "(0::int) \<le> 5" by simp
  from generate_learning_resources_fallback [of example_config all_timeouts parse_nothing ?gaps 5]
    fail five
  have "generate_learning_resources example_config all_timeouts parse_nothing ?gaps 5
          = Inr (get_fallback_resources ?gaps 5)
        \<and> length (get_fallback_resources ?gaps 5) = min (length ?gaps) (nat 5)"
    by blast
  then show ?thesis using titles by (simp add: gaps)
qed

text \<open>
  Claim C2 as stated fails: with no gap, or with \<open>max_resources = 0\<close>, and every remote
  attempt timing out, the result is the empty list.
\<close>

theorem generate_learning_resources_empty_counterexample:
  "generate_learning_resources example_config all_timeouts parse_nothing [] 5 = Inr []
   \<and> generate_learning_resources example_config all_timeouts parse_nothing
       [\<lparr>skill_name = ''python'', current_level = 0, required_level = 3, gap = 3,
         priority = ''high''\<rparr>] 0 = Inr []"
  by (simp add: generate_learning_resources_def example_config_def get_fallback_resources_def
        py_slice_to_def generate_chat_response_def all_timeouts_def upt_rec)


subsection \<open>Target resolution\<close>

lemma find_Some_split:
  "find P xs = Some x \<Longrightarrow>
     \<exists>before after. xs = before @ x # after \<and> (\<forall>q \<in> set before. \<not> P q) \<and> P x"
proof (induction xs)
  case Nil
  then show ?case by simp
next
  case (Cons a xs)
  show ?case
  proof (cases "P a")
    case True
    with Cons.prems have "a = x" by simp
    with True have "a # xs = [] @ x # xs \<and> (\<forall>q \<in> set []. \<not> P q) \<and> P x" by simp
    then show ?thesis by blast
  next
    case False
    with Cons obtain before after
      where "xs = before @ x # after" "\<forall>q \<in> set before. \<not> P q" "P x" by auto
    with False have "a # xs = (a # before) @ x # after \<and> (\<forall>q \<in> set (a # before). \<not> P q) \<and> P x"
      by simp
    then show ?thesis by blast
  qed
qed

text \<open>
  Claim C4, as amended.  \<open>generate_learning_plan\<close> returns a plan.  When some position of the
  catalog (open positions, then current ones) has the role string as its title, compared
  case-insensitively, or as its identifier, compared exactly, the gaps of the plan are those
  to the required skills of the first such position; when none has, they are the gaps inferred
  from the role name.
\<close>

theorem generate_learning_plan_target:
  "\<exists>plan. generate_learning_plan cfg d remote parse now e role m = Inr plan
     \<and> ((\<exists>p \<in> set (get_open_positions d @ get_current_positions d).
            lower (pos_title p) = lower role \<or> pos_id p = role) \<longrightarrow>
          (\<exists>before p after.
             get_open_positions d @ get_current_positions d = before @ p # after
             \<and> (\<forall>q \<in> set before. \<not> (lower (pos_title q) = lower role \<or> pos_id q = role))
             \<and> (lower (pos_title p) = lower role \<or> pos_id p = role)
             \<and> plan_skill_gaps plan = calculate_skill_gap (emp_skills e) (pos_required_skills p)))
     \<and> ((\<forall>p \<in> set (get_open_positions d @ get_current_positions d).
            \<not> (lower (pos_title p) = lower role \<or> pos_id p = role)) \<longrightarrow>
          plan_skill_gaps plan = infer_skills_from_role_name role (emp_skills e))"
proof -
  let ?all = "get_open_positions d @ get_current_positions d"
  let ?P = "\<lambda>p. lower (pos_title p) = lower role \<or> pos_id p = role"
  let ?m = "case m of None \<Rightarrow> MAX_LEARNING_RESOURCES cfg | Some k \<Rightarrow> k"
  let ?gaps = "case find_target_position ?all role of
                 None \<Rightarrow> infer_skills_from_role_name role (emp_skills e)
               | Some target \<Rightarrow> calculate_skill_gap (emp_skills e) (pos_required_skills target)"
  obtain rs where rs: "generate_learning_resources cfg remote parse ?gaps ?m = Inr rs"
    using generate_learning_resources_returns by blast
  obtain plan where plan: "generate_learning_plan cfg d remote parse now e role m = Inr plan"
    and gaps: "plan_skill_gaps plan = ?gaps"
    using rs by (cases "USE_GPT_RESOURCE_GENERATION cfg") (simp_all add: generate_learning_plan_def Let_def)
  have found: "\<exists>before p after. ?all = before @ p # after \<and> (\<forall>q \<in> set before. \<not> ?P q) \<and> ?P p
                 \<and> plan_skill_gaps plan = calculate_skill_gap (emp_skills e) (pos_required_skills p)"
    if "\<exists>p \<in> set ?all. ?P p"
  proof -
    from that have "find ?P ?all \<noteq> None" unfolding find_None_iff by blast
    then obtain p where p: "find ?P ?all = Some p" by blast
    then have "plan_skill_gaps plan = calculate_skill_gap (emp_skills e) (pos_required_skills p)"
      by (simp add: gaps find_target_position_def)
    with find_Some_split [OF p] show ?thesis by blast
  qed
  have missing: "plan_skill_gaps plan = infer_skills_from_role_name role (emp_skills e)"
    if "\<forall>p \<in> set ?all. \<not> ?P p"
  proof -
    from that have "find ?P ?all = None" unfolding find_None_iff by blast
    then show ?thesis by (simp add: gaps find_target_position_def)
  qed
  show ?thesis using plan found missing by blast
qed

theorem generate_learning_plan_target_witness:
  "map_sum id (map skill_name \<circ> plan_skill_gaps)
     (generate_learning_plan example_config
        \<lparr>current_positions = [],
         open_positions = [example_position ''P1'' ''Data Engineer'' [(''spark'', 3)]]\<rparr>
        all_timeouts parse_nothing 0 (example_employee []) ''DATA engineer'' None)
     = Inr [''spark'']
   \<and> map_sum id (map skill_name \<circ> plan_skill_gaps)
     (generate_learning_plan example_config
        \<lparr>current_positions = [],
         open_positions = [example_position ''P1'' ''Data Engineer'' [(''spark'', 3)]]\<rparr>
        all_timeouts parse_nothing 0 (example_employee []) ''Python coach'' None)
     = Inr [''python'']"
proof -
  let ?d = "\<lparr>current_positions = [],
         open_positions = [example_position ''P1'' ''Data Engineer'' [(''spark'', 3)]]\<rparr>"
  let ?p = "example_position ''P1'' ''Data Engineer'' [(''spark'', 3)]"
  have all: "get_open_positions ?d @ get_current_positions ?d = [?p]"
    by (simp add: get_open_positions_def get_current_positions_def example_position_def)
  have hit: "lower (pos_title ?p) = lower ''DATA engineer''"
    by (simp add: example_position_def lower_def lower_char_def)
  have miss: "\<not> (lower (pos_title ?p) = lower ''Python coach'' \<or> pos_id ?p = ''Python coach'')"
    by (simp add: example_position_def lower_def lower_char_def)
  have spark: "map skill_name (calculate_skill_gap [] [(''spark'', 3)]) = [''spark'']"
    by (simp add: calculate_skill_gap_def py_sort_reverse_def gap_sort_key_def dict_get_def
          priority_order_def)
  have python: "map skill_name (infer_skills_from_role_name ''Python coach'' []) = [''python'']"
    by (simp add: infer_skills_from_role_name_def role_skill_mapping_def skill_keywords_def
          keyword_loop_def lower_def lower_char_def replace_char_def py_sort_reverse_def
          dict_get_def Let_def)
  from generate_learning_plan_target
         [of example_config ?d all_timeouts parse_nothing 0 "example_employee []" "''DATA engineer''" None]
  obtain plan where plan: "generate_learning_plan example_config ?d all_timeouts parse_nothing 0
                             (example_employee []) ''DATA engineer'' None = Inr plan"
    and found: "\<exists>before p after. [?p] = before @ p # after
             \<and> (lower (pos_title p) = lower ''DATA engineer'' \<or> pos_id p = ''DATA engineer'')
             \<and> plan_skill_gaps plan
                 = calculate_skill_gap (emp_skills (example_employee [])) (pos_required_skills p)"
    using hit unfolding all by auto
  from found have "plan_skill_gaps plan
                 = calculate_skill_gap (emp_skills (example_employee [])) (pos_required_skills ?p)"
    by (auto simp: Cons_eq_append_conv)
  then have first: "map skill_name (plan_skill_gaps plan) = [''spark'']"
    using spark by (simp add: example_position_def example_employee_def)
  from generate_learning_plan_target
         [of example_config ?d all_timeouts parse_nothing 0 "example_employee []" "''Python coach''" None]
  obtain plan' where plan': "generate_learning_plan example_config ?d all_timeouts parse_nothing 0
                             (example_employee []) ''Python coach'' None = Inr plan'"
    and inferred: "plan_skill_gaps plan'
                     = infer_skills_from_role_name ''Python coach'' (emp_skills (example_employee []))"
    using miss unfolding all by auto
  from inferred have second: "map skill_name (plan_skill_gaps plan') = [''python'']"
    using python by (simp add: example_employee_def)
  show ?thesis using plan first plan' second by simp
qed

text \<open>
  Claim C4 as stated fails: the identifier \<open>P1\<close> equals the role string \<open>p1\<close> up to case,
  yet no position is found and the plan holds the gaps inferred from the name (none), not the
  gaps to the position.
\<close>

theorem target_identifier_case_counterexample:
  "lower (pos_id (example_position ''P1'' ''Data Engineer'' [(''spark'', 3)])) = lower ''p1''
   \<and> find_target_position
        (get_open_positions
           \<lparr>current_positions = [],
            open_positions = [example_position ''P1'' ''Data Engineer'' [(''spark'', 3)]]\<rparr>
         @ get_current_positions
           \<lparr>current_positions = [],
            open_positions = [example_position ''P1'' ''Data Engineer'' [(''spark'', 3)]]\<rparr>)
        ''p1'' = None
   \<and> map_sum id plan_skill_gaps
     (generate_learning_plan example_config
        \<lparr>current_positions = [],
         open_positions = [example_position ''P1'' ''Data Engineer'' [(''spark'', 3)]]\<rparr>
        all_timeouts parse_nothing 0 (example_employee []) ''p1'' None)
     = Inr []
   \<and> calculate_skill_gap (emp_skills (example_employee []))
        (pos_required_skills (example_position ''P1'' ''Data Engineer'' [(''spark'', 3)])) \<noteq> []"
proof -
  have inferred: "infer_skills_from_role_name ''p1'' [] = []"
    by (simp add: infer_skills_from_role_name_def role_skill_mapping_def skill_keywords_def
          keyword_loop_def lower_def lower_char_def replace_char_def py_sort_reverse_def
          dict_get_def Let_def)
  have none: "find_target_position
        (get_open_positions
           \<lparr>current_positions = [],
            open_positions = [example_position ''P1'' ''Data Engineer'' [(''spark'', 3)]]\<rparr>
         @ get_current_positions
           \<lparr>current_positions = [],
            open_positions = [example_position ''P1'' ''Data Engineer'' [(''spark'', 3)]]\<rparr>)
        ''p1'' = None"
    by (simp add: find_target_position_def get_open_positions_def get_current_positions_def
          example_position_def lower_def lower_char_def)
  have plan: "map_sum id plan_skill_gaps
     (generate_learning_plan example_config
        \<lparr>current_positions = [],
         open_positions = [example_position ''P1'' ''Data Engineer'' [(''spark'', 3)]]\<rparr>
        all_timeouts parse_nothing 0 (example_employee []) ''p1'' None)
     = Inr []"
    by (simp add: generate_learning_plan_def none inferred Let_def example_employee_def
          generate_learning_resources_def example_config_def)
  have ident: "lower (pos_id (example_position ''P1'' ''Data Engineer'' [(''spark'', 3)])) = lower ''p1''"
    by (simp add: example_position_def lower_def lower_char_def)
  have gaps: "calculate_skill_gap (emp_skills (example_employee []))
        (pos_required_skills (example_position ''P1'' ''Data Engineer'' [(''spark'', 3)])) \<noteq> []"
    by (simp add: example_position_def example_employee_def calculate_skill_gap_def
          py_sort_reverse_def dict_get_def)
  show ?thesis using ident none plan gaps by simp
qed

subsection \<open>Trending skills\<close>

lemma round_half_even_near: "\<bar>real_of_int (round_half_even y) - y\<bar> \<le> 1 / 2"
proof -
  define f where "f = \<lfloor>y\<rfloor>"
  have lo: "real_of_int f \<le> y" and hi: "y < real_of_int f + 1"
    unfolding f_def by linarith+
  show ?thesis
    unfolding round_half_even_def Let_def f_def [symmetric]
    using lo hi by (auto simp: abs_if)
qed

lemma py_round1_near: "\<bar>py_round1 x - x\<bar> \<le> 1 / 20"
proof -
  define r where "r = real_of_int (round_half_even (x * 10))"
  have "\<bar>r - x * 10\<bar> \<le> 1 / 2" unfolding r_def by (rule round_half_even_near)
  then have "\<bar>r / 10 - x\<bar> \<le> 1 / 20" by linarith
  then show ?thesis by (simp add: py_round1_def r_def)
qed

lemma float_div_pos_exponent:
  assumes "0 < p" "0 < q"
  shows "2 powi (bitlen p - bitlen q - 1) \<le> real_of_int p / real_of_int q"
proof -
  from bitlen_bounds [OF assms(1)] have p: "2 ^ nat (bitlen p - 1) \<le> p" by simp
  from bitlen_bounds [OF assms(2)] have q: "q < 2 ^ nat (bitlen q)" by simp
  have bp: "0 < bitlen p" and bq: "0 < bitlen q"
    using assms bitlen_nonneg [of p] bitlen_nonneg [of q] bitlen_eq_zero_iff [of p]
      bitlen_eq_zero_iff [of q] by fastforce+
  have p': "(2::real) powi (bitlen p - 1) \<le> real_of_int p"
  proof -
    have "real_of_int (2 ^ nat (bitlen p - 1)) \<le> real_of_int p" using p by linarith
    then show ?thesis using bp by (simp add: power_int_def)
  qed
  have q': "real_of_int q \<le> 2 powi (bitlen q)"
  proof -
    have "real_of_int q \<le> real_of_int (2 ^ nat (bitlen q))" using q by linarith
    then show ?thesis using bq by (simp add: power_int_def)
  qed
  have idx: "bitlen p - bitlen q - 1 = (bitlen p - 1) - bitlen q" by simp
  have "(2::real) powi (bitlen p - bitlen q - 1) = 2 powi (bitlen p - 1) / 2 powi (bitlen q)"
    unfolding idx by (rule power_int_diff) simp
  also have "\<dots> \<le> real_of_int p / 2 powi (bitlen q)"
    using p' by (simp add: divide_right_mono)
  also have "\<dots> \<le> real_of_int p / real_of_int q"
    using q' assms by (simp add: frac_le)
  finally show ?thesis .
qed

lemma float_div_pos_error:
  assumes "0 < p" "0 < q"
  shows "\<bar>float_div_pos p q - real_of_int p / real_of_int q\<bar>
           \<le> real_of_int p / real_of_int q / 2 ^ 53"
proof -
  define x where "x = real_of_int p / real_of_int q"
  define k where "k = bitlen p - bitlen q"
  define l where "l = (if real_of_int q * 2 powi k \<le> real_of_int p then k else k - 1)"
  define e where "e = l - 52"
  have xpos: "0 < x" using assms by (simp add: x_def)
  have fl: "float_div_pos p q = real_of_int (round_half_even (x / 2 powi e)) * 2 powi e"
    by (simp add: float_div_pos_def Let_def k_def l_def e_def x_def)
  have l: "2 powi l \<le> x"
  proof (cases "real_of_int q * 2 powi k \<le> real_of_int p")
    case True
    then have "2 powi k \<le> x" using assms by (simp add: x_def field_simps)
    with True show ?thesis by (simp add: l_def)
  next
    case False
    with float_div_pos_exponent [OF assms] show ?thesis by (simp add: l_def k_def x_def)
  qed
  have epos: "(0::real) < 2 powi e" by simp
  have le: "(2::real) powi l = 2 powi e * 2 ^ 52"
    by (simp add: e_def power_int_diff)
  have "\<bar>float_div_pos p q - x\<bar>
          = \<bar>real_of_int (round_half_even (x / 2 powi e)) - x / 2 powi e\<bar> * 2 powi e"
  proof -
    have "float_div_pos p q - x
            = (real_of_int (round_half_even (x / 2 powi e)) - x / 2 powi e) * 2 powi e"
      using epos by (simp add: fl field_simps)
    then show ?thesis using epos by (simp add: abs_mult)
  qed
  also have "\<dots> \<le> 1 / 2 * 2 powi e"
    using round_half_even_near [of "x / 2 powi e"] epos by (intro mult_right_mono) simp_all
  also have "\<dots> = 2 powi l / 2 ^ 53" by (simp add: le)
  also have "\<dots> \<le> x / 2 ^ 53" using l by (simp add: divide_right_mono)
  finally show ?thesis by (simp add: x_def)
qed

lemma py_round1_tenths: "\<exists>j. py_round1 x = real_of_int j / 10"
  by (auto simp: py_round1_def)

lemma average_level_near:
  assumes t: "0 \<le> t" and c: "0 < c" and small: "20 * t < 2 ^ 53"
  shows "\<bar>py_round1 (py_truediv t c) - real_of_int t / real_of_int c\<bar> \<le> 1 / 20"
proof (cases "t = 0")
  case True
  then show ?thesis by (simp add: py_truediv_def py_round1_def round_half_even_def)
next
  case False
  with t have tpos: "0 < t" by simp
  define q where "q = real_of_int t / real_of_int c"
  define y where "y = py_truediv t c"
  obtain j where j: "py_round1 y = real_of_int j / 10" using py_round1_tenths by blast
  have y: "y = float_div_pos t c" using tpos c by (simp add: y_def py_truediv_def)
  have err: "\<bar>y - q\<bar> \<le> q / 2 ^ 53"
    unfolding y q_def by (rule float_div_pos_error [OF tpos c])
  have near: "\<bar>real_of_int j / 10 - y\<bar> \<le> 1 / 20"
    using py_round1_near [of y] by (simp add: j)
  have cr: "0 < real_of_int c" using c by simp
  have tr: "real_of_int t * 20 < 2 ^ 53"
  proof -
    have "real_of_int (20 * t) < real_of_int (2 ^ 53)" using small by linarith
    then show ?thesis by simp
  qed
  have bound: "q / 2 ^ 53 < 1 / (20 * real_of_int c)"
    using cr tr by (simp add: q_def field_simps)
  have upper: "q \<le> real_of_int j / 10 + 1 / 20"
  proof (rule ccontr)
    assume "\<not> q \<le> real_of_int j / 10 + 1 / 20"
    then have "real_of_int ((2 * j + 1) * c) < real_of_int (20 * t)"
      using cr by (simp add: q_def field_simps)
    then have "(2 * j + 1) * c < 20 * t" by linarith
    then have "(2 * j + 1) * c + 1 \<le> 20 * t" by simp
    then have "real_of_int ((2 * j + 1) * c + 1) \<le> real_of_int (20 * t)" by linarith
    then have "real_of_int ((2 * j + 1) * c + 1) / (20 * real_of_int c)
                 \<le> real_of_int (20 * t) / (20 * real_of_int c)"
      using cr by (intro divide_right_mono) simp_all
    moreover have "real_of_int ((2 * j + 1) * c + 1) / (20 * real_of_int c)
                     = real_of_int j / 10 + 1 / 20 + 1 / (20 * real_of_int c)"
      using cr by (simp add: field_simps)
    moreover have "real_of_int (20 * t) / (20 * real_of_int c) = q"
      using cr by (simp add: q_def)
    ultimately have "real_of_int j / 10 + 1 / 20 + 1 / (20 * real_of_int c) \<le> q" by simp
    with near err bound show False by (simp add: abs_if split: if_splits)
  qed
  have lower: "real_of_int j / 10 - 1 / 20 \<le> q"
  proof (rule ccontr)
    assume "\<not> real_of_int j / 10 - 1 / 20 \<le> q"
    then have "real_of_int (20 * t) < real_of_int ((2 * j - 1) * c)"
      using cr by (simp add: q_def field_simps)
    then have "20 * t < (2 * j - 1) * c" by linarith
    then have "20 * t + 1 \<le> (2 * j - 1) * c" by simp
    then have "real_of_int (20 * t + 1) \<le> real_of_int ((2 * j - 1) * c)" by linarith
    then have "real_of_int (20 * t + 1) / (20 * real_of_int c)
                 \<le> real_of_int ((2 * j - 1) * c) / (20 * real_of_int c)"
      using cr by (intro divide_right_mono) simp_all
    moreover have "real_of_int ((2 * j - 1) * c) / (20 * real_of_int c)
                     = real_of_int j / 10 - 1 / 20"
      using cr by (simp add: field_simps)
    moreover have "real_of_int (20 * t + 1) / (20 * real_of_int c) = q + 1 / (20 * real_of_int c)"
      using cr by (simp add: q_def field_simps)
    ultimately have "q + 1 / (20 * real_of_int c) \<le> real_of_int j / 10 - 1 / 20" by simp
    with near err bound show False by (simp add: abs_if split: if_splits)
  qed
  from upper lower show ?thesis
    unfolding y_def [symmetric] q_def [symmetric] j by (simp add: abs_if)
qed

lemma map_of_demand_add:
  "map_of (demand_add sd s l) =
     (map_of sd)(s \<mapsto> (case map_of sd s of
                          None \<Rightarrow> \<lparr>dm_count = 1, dm_avg_level = 0, dm_total_level = l\<rparr>
                        | Some e \<Rightarrow> e\<lparr>dm_count := dm_count e + 1,
                                        dm_total_level := dm_total_level e + l\<rparr>))"
proof (induction sd)
  case Nil
  then show ?case by simp
next
  case (Cons a sd)
  obtain k e where a: "a = (k, e)" by (cases a)
  show ?case by (auto simp: a Cons.IH fun_eq_iff)
qed

lemma keys_demand_add: "fst ` set (demand_add sd s l) = insert s (fst ` set sd)"
proof (induction sd)
  case Nil
  then show ?case by simp
next
  case (Cons a sd)
  obtain k e where a: "a = (k, e)" by (cases a)
  show ?case using Cons.IH by (auto simp: a)
qed

lemma distinct_demand_add:
  "distinct (map fst sd) \<Longrightarrow> distinct (map fst (demand_add sd s l))"
proof (induction sd)
  case Nil
  then show ?case by simp
next
  case (Cons a sd)
  obtain k e where a: "a = (k, e)" by (cases a)
  from Cons show ?case using keys_demand_add [of sd s l] by (auto simp: a)
qed

lemma count_demand_concat:
  "foldl (\<lambda>skill_demand position.
            foldl (\<lambda>sd (skill, level). demand_add sd skill level) skill_demand
                  (pos_required_skills position)) acc ps
   = foldl (\<lambda>sd (skill, level). demand_add sd skill level) acc
       (concat (map pos_required_skills ps))"
  by (induction ps arbitrary: acc) simp_all

lemma demand_fold_distinct:
  "distinct (map fst (foldl (\<lambda>sd (skill, level). demand_add sd skill level) [] items))"
proof (induction items rule: rev_induct)
  case Nil
  then show ?case by simp
next
  case (snoc x items)
  obtain s l where x: "x = (s, l)" by (cases x)
  from snoc show ?case by (simp add: x distinct_demand_add)
qed

lemma demand_fold_map_of:
  "map_of (foldl (\<lambda>sd (skill, level). demand_add sd skill level) [] items) k =
     (if filter (\<lambda>x. fst x = k) items = [] then None
      else Some \<lparr>dm_count = int (length (filter (\<lambda>x. fst x = k) items)), dm_avg_level = 0,
                 dm_total_level = sum_list (map snd (filter (\<lambda>x. fst x = k) items))\<rparr>)"
proof (induction items rule: rev_induct)
  case Nil
  then show ?case by simp
next
  case (snoc x items)
  obtain s l where x: "x = (s, l)" by (cases x)
  show ?case
  proof (cases "k = s")
    case True
    from snoc.IH show ?thesis unfolding True by (simp add: x map_of_demand_add)
  next
    case False
    then show ?thesis by (simp add: x map_of_demand_add snoc.IH)
  qed
qed

lemma distinct_filter_key:
  "distinct (map fst xs) \<Longrightarrow>
     int (length (filter (\<lambda>x. fst x = k) xs)) = (if dict_contains xs k then 1 else 0)
     \<and> sum_list (map snd (filter (\<lambda>x. fst x = k) xs)) = dict_get xs k (0::int)"
proof (induction xs)
  case Nil
  then show ?case by (simp add: dict_contains_def dict_get_def)
next
  case (Cons a xs)
  obtain s l where a: "a = (s, l)" by (cases a)
  show ?case
  proof (cases "s = k")
    case True
    with Cons.prems have "k \<notin> fst ` set xs" by (simp add: a)
    then have "filter (\<lambda>x. fst x = k) xs = []" by (auto simp: filter_empty_conv)
    with True show ?thesis by (simp add: a dict_contains_def dict_get_def)
  next
    case False
    with Cons show ?thesis by (simp add: a dict_contains_def dict_get_def)
  qed
qed

lemma concat_filter_key:
  assumes "\<forall>p \<in> set ps. distinct (map fst (pos_required_skills p))"
  shows "int (length (filter (\<lambda>x. fst x = k) (concat (map pos_required_skills ps))))
           = int (length (filter (\<lambda>p. dict_contains (pos_required_skills p) k) ps))
       \<and> sum_list (map snd (filter (\<lambda>x. fst x = k) (concat (map pos_required_skills ps))))
           = (\<Sum>p\<leftarrow>ps. dict_get (pos_required_skills p) k 0)"
  using assms
proof (induction ps)
  case Nil
  then show ?case by simp
next
  case (Cons p ps)
  from Cons.prems have d: "distinct (map fst (pos_required_skills p))" by simp
  from Cons have IH: "int (length (filter (\<lambda>x. fst x = k) (concat (map pos_required_skills ps))))
           = int (length (filter (\<lambda>p. dict_contains (pos_required_skills p) k) ps))"
     "sum_list (map snd (filter (\<lambda>x. fst x = k) (concat (map pos_required_skills ps))))
           = (\<Sum>p\<leftarrow>ps. dict_get (pos_required_skills p) k 0)" by simp_all
  from distinct_filter_key [OF d, of k] IH show ?case by simp
qed

lemma count_demand_entry:
  assumes "\<forall>p \<in> set ps. distinct (map fst (pos_required_skills p))"
      and "(k, e) \<in> set (count_demand ps)"
  shows "dm_count e = int (length (filter (\<lambda>p. dict_contains (pos_required_skills p) k) ps))
       \<and> dm_total_level e = (\<Sum>p\<leftarrow>ps. dict_get (pos_required_skills p) k 0)
       \<and> dm_count e > 0"
proof -
  let ?items = "concat (map pos_required_skills ps)"
  let ?sd = "foldl (\<lambda>sd (skill, level). demand_add sd skill level) [] ?items"
  have cd: "count_demand ps = ?sd" by (simp add: count_demand_def count_demand_concat)
  with assms(2) have "map_of ?sd k = Some e" using demand_fold_distinct [of ?items] by simp
  then have ne: "filter (\<lambda>x. fst x = k) ?items \<noteq> []"
    and e: "e = \<lparr>dm_count = int (length (filter (\<lambda>x. fst x = k) ?items)), dm_avg_level = 0,
                 dm_total_level = sum_list (map snd (filter (\<lambda>x. fst x = k) ?items))\<rparr>"
    by (auto simp: demand_fold_map_of split: if_splits)
  from ne have "0 < length (filter (\<lambda>x. fst x = k) ?items)" by simp
  with e concat_filter_key [OF assms(1), of k] show ?thesis by simp
qed

lemma count_demand_required:
  assumes "p \<in> set ps" and "(k, l) \<in> set (pos_required_skills p)"
  shows "\<exists>e. (k, e) \<in> set (count_demand ps)"
proof -
  let ?items = "concat (map pos_required_skills ps)"
  from assms have "(k, l) \<in> set ?items" by auto
  then have "filter (\<lambda>x. fst x = k) ?items \<noteq> []"
    unfolding filter_empty_conv by force
  then have "map_of (count_demand ps) k \<noteq> None"
    by (simp add: count_demand_def count_demand_concat demand_fold_map_of)
  then show ?thesis by (auto dest: map_of_SomeD)
qed

lemma trending_entries_entry:
  "t \<in> set (trending_entries sd) \<Longrightarrow>
     \<exists>e. (tr_skill t, e) \<in> set sd \<and> demand_count t = dm_count e
        \<and> average_level t = py_round1 (py_truediv (dm_total_level e) (dm_count e))
        \<and> trend t = (if dm_count e \<ge> 3 then ''high''
                     else if dm_count e \<ge> 2 then ''medium'' else ''low'')"
  by (auto simp: trending_entries_def)

lemma trending_entries_complete:
  "(k, e) \<in> set sd \<Longrightarrow> 0 < dm_count e \<Longrightarrow>
     \<exists>t \<in> set (trending_entries sd). tr_skill t = k \<and> demand_count t = dm_count e
        \<and> average_level t = py_round1 (py_truediv (dm_total_level e) (dm_count e))"
  by (force simp: trending_entries_def)

lemma trending_entries_distinct:
  "distinct (map fst sd) \<Longrightarrow> distinct (map tr_skill (trending_entries sd))"
proof -
  assume d: "distinct (map fst sd)"
  have "map tr_skill (trending_entries sd) = map fst (filter (\<lambda>(skill, e). dm_count e > 0) sd)"
    by (simp add: trending_entries_def split_def comp_def)
  then show ?thesis using d by (simp add: distinct_map_filter)
qed

lemma distinct_map_py_sort_reverse:
  "distinct (map g (py_sort_reverse f xs)) = distinct (map g xs)"
  by (simp add: py_sort_reverse_def distinct_map)

lemma distinct_map_py_slice_to:
  "distinct (map g xs) \<Longrightarrow> distinct (map g (py_slice_to xs n))"
  by (simp add: py_slice_to_def take_map [symmetric])

lemma sorted_take_omitted:
  assumes "sorted_wrt P xs" and "u \<in> set xs" and "u \<notin> set (take n xs)"
  shows "length (take n xs) = n \<and> (\<forall>t \<in> set (take n xs). P t u)"
proof -
  have split: "xs = take n xs @ drop n xs" by simp
  from assms(2,3) have u: "u \<in> set (drop n xs)" by (metis Un_iff set_append split)
  then have "n < length xs" by (cases "n < length xs") simp_all
  then have len: "length (take n xs) = n" by simp
  from assms(1) have "sorted_wrt P (take n xs @ drop n xs)" by simp
  then have "\<forall>t \<in> set (take n xs). \<forall>v \<in> set (drop n xs). P t v"
    unfolding sorted_wrt_append by blast
  with u len show ?thesis by blast
qed

lemma float_examples:
  "py_round1 (py_truediv 11 3) = 37 / 10"
  "py_round1 (py_truediv 7 2) = 7 / 2"
  "py_round1 (py_truediv 2 1) = 2"
  "py_round1 (py_truediv 43 20) = 21 / 10"
  by (simp_all add: py_round1_def py_truediv_def float_div_pos_def round_half_even_def
        compute_bitlen Let_def)

text \<open>
  Claim C9.  For every catalog of open positions (each with unique skill keys), every entry
  that \<open>get_trending_skills\<close> returns has as \<open>demand_count\<close> the number of positions that
  require the skill and as \<open>average_level\<close> what \<open>round(total / count, 1)\<close> gives on the
  float quotient of the total of the required levels by that count: a multiple of one tenth,
  within one twentieth of the exact quotient as long as the total stays below \<open>2 ^ 53 / 20\<close>.
  Its trend is high exactly when the count is at least 3, medium exactly when it is 2, and low
  otherwise.  No skill has two entries, and every skill that some open position requires has
  its entry in the result, unless the result holds 10 entries that all rank at least as high.
  The list is in descending order of the pair (demand count, average level) and has at most 10
  entries.  For positions requiring python at 3, 3 and 5 the result is python with count 3,
  average 3.7 and trend high.
\<close>

theorem get_trending_skills_demand:
  assumes "\<forall>p \<in> set (get_open_positions d). distinct (map fst (pos_required_skills p))"
  shows "(\<forall>t \<in> set (get_trending_skills d).
            demand_count t
              = int (length (filter (\<lambda>p. dict_contains (pos_required_skills p) (tr_skill t))
                               (get_open_positions d)))
          \<and> 0 < demand_count t
          \<and> average_level t
              = py_round1 (py_truediv (\<Sum>p\<leftarrow>get_open_positions d.
                                          dict_get (pos_required_skills p) (tr_skill t) 0)
                                      (demand_count t))
          \<and> (\<exists>j. average_level t = real_of_int j / 10)
          \<and> (0 \<le> (\<Sum>p\<leftarrow>get_open_positions d. dict_get (pos_required_skills p) (tr_skill t) 0)
               \<and> 20 * (\<Sum>p\<leftarrow>get_open_positions d.
                           dict_get (pos_required_skills p) (tr_skill t) 0) < 2 ^ 53 \<longrightarrow>
             \<bar>average_level t
               - real_of_int (\<Sum>p\<leftarrow>get_open_positions d.
                                 dict_get (pos_required_skills p) (tr_skill t) 0)
                 / real_of_int (demand_count t)\<bar> \<le> 1 / 20)
          \<and> (trend t = ''high'' \<longleftrightarrow> 3 \<le> demand_count t)
          \<and> (trend t = ''medium'' \<longleftrightarrow> demand_count t = 2)
          \<and> (trend t = ''low'' \<longleftrightarrow> demand_count t < 2))
       \<and> distinct (map tr_skill (get_trending_skills d))
       \<and> (\<forall>p \<in> set (get_open_positions d). \<forall>(k, l) \<in> set (pos_required_skills p).
            k \<in> tr_skill ` set (get_trending_skills d)
            \<or> (length (get_trending_skills d) = 10
               \<and> (\<forall>t \<in> set (get_trending_skills d).
                     (int (length (filter (\<lambda>p. dict_contains (pos_required_skills p) k)
                                     (get_open_positions d))),
                      py_round1 (py_truediv (\<Sum>p\<leftarrow>get_open_positions d.
                                                dict_get (pos_required_skills p) k 0)
                                   (int (length (filter (\<lambda>p. dict_contains (pos_required_skills p) k)
                                                   (get_open_positions d))))))
                     \<le> (demand_count t, average_level t))))
       \<and> sorted_wrt (\<lambda>a b. (demand_count b, average_level b) \<le> (demand_count a, average_level a))
            (get_trending_skills d)
       \<and> length (get_trending_skills d) \<le> 10
       \<and> get_trending_skills
            \<lparr>current_positions = [],
             open_positions = [example_position ''P1'' ''Developer'' [(''python'', 3)],
                               example_position ''P2'' ''Tester'' [(''python'', 3)],
                               example_position ''P3'' ''Architect'' [(''python'', 5)]]\<rparr>
           = [\<lparr>tr_skill = ''python'', demand_count = 3, average_level = 3.7, trend = ''high''\<rparr>]"
proof -
  let ?ps = "get_open_positions d"
  let ?key = "\<lambda>x. (demand_count x, average_level x)"
  let ?E = "trending_entries (count_demand ?ps)"
  let ?S = "py_sort_reverse ?key ?E"
  let ?cnt = "\<lambda>k. int (length (filter (\<lambda>p. dict_contains (pos_required_skills p) k) ?ps))"
  let ?tot = "\<lambda>k. (\<Sum>p\<leftarrow>?ps. dict_get (pos_required_skills p) k 0)"
  have res: "get_trending_skills d = take 10 ?S"
    by (simp add: get_trending_skills_def py_slice_to_def)
  have sub: "set (get_trending_skills d) \<subseteq> set ?E"
    using set_take_subset [of 10 ?S] by (simp add: res set_py_sort_reverse)
  have entry: "demand_count t = ?cnt (tr_skill t)
          \<and> 0 < demand_count t
          \<and> average_level t = py_round1 (py_truediv (?tot (tr_skill t)) (demand_count t))
          \<and> (\<exists>j. average_level t = real_of_int j / 10)
          \<and> (0 \<le> ?tot (tr_skill t) \<and> 20 * ?tot (tr_skill t) < 2 ^ 53 \<longrightarrow>
             \<bar>average_level t - real_of_int (?tot (tr_skill t)) / real_of_int (demand_count t)\<bar>
               \<le> 1 / 20)
          \<and> (trend t = ''high'' \<longleftrightarrow> 3 \<le> demand_count t)
          \<and> (trend t = ''medium'' \<longleftrightarrow> demand_count t = 2)
          \<and> (trend t = ''low'' \<longleftrightarrow> demand_count t < 2)"
    if "t \<in> set (get_trending_skills d)" for t
  proof -
    from that sub have "t \<in> set ?E" by blast
    from trending_entries_entry [OF this] obtain e
      where e: "(tr_skill t, e) \<in> set (count_demand ?ps)" and c: "demand_count t = dm_count e"
        and a: "average_level t = py_round1 (py_truediv (dm_total_level e) (dm_count e))"
        and tr: "trend t = (if dm_count e \<ge> 3 then ''high''
                            else if dm_count e \<ge> 2 then ''medium'' else ''low'')"
      by blast
    from count_demand_entry [OF assms e]
    have cnt: "dm_count e = ?cnt (tr_skill t)"
      and tot: "dm_total_level e = ?tot (tr_skill t)"
      and pos: "dm_count e > 0" by blast+
    have avg: "average_level t = py_round1 (py_truediv (?tot (tr_skill t)) (demand_count t))"
      by (simp only: a c tot)
    have tenths: "\<exists>j. average_level t = real_of_int j / 10"
      unfolding avg by (rule py_round1_tenths)
    have near: "\<bar>average_level t - real_of_int (?tot (tr_skill t)) / real_of_int (demand_count t)\<bar>
               \<le> 1 / 20"
      if "0 \<le> ?tot (tr_skill t) \<and> 20 * ?tot (tr_skill t) < 2 ^ 53"
      unfolding avg using that pos c by (intro average_level_near) simp_all
    have tags: "(trend t = ''high'' \<longleftrightarrow> 3 \<le> demand_count t)
          \<and> (trend t = ''medium'' \<longleftrightarrow> demand_count t = 2)
          \<and> (trend t = ''low'' \<longleftrightarrow> demand_count t < 2)"
      using pos by (auto simp: tr c)
    from cnt c have cnt': "demand_count t = ?cnt (tr_skill t)" by simp
    from pos c have pos': "0 < demand_count t" by simp
    show ?thesis using cnt' pos' avg tenths near tags by blast
  qed
  have names: "distinct (map tr_skill (get_trending_skills d))"
  proof -
    have "distinct (map fst (count_demand ?ps))"
      by (simp add: count_demand_def count_demand_concat demand_fold_distinct)
    then have "distinct (map tr_skill ?S)"
      by (simp add: distinct_map_py_sort_reverse trending_entries_distinct)
    then show ?thesis unfolding res by (simp add: take_map [symmetric])
  qed
  have ranked_all: "sorted_wrt (\<lambda>a b. ?key b \<le> ?key a) ?S" by (rule sorted_py_sort_reverse)
  have covered: "k \<in> tr_skill ` set (get_trending_skills d)
            \<or> (length (get_trending_skills d) = 10
               \<and> (\<forall>t \<in> set (get_trending_skills d).
                     (?cnt k, py_round1 (py_truediv (?tot k) (?cnt k))) \<le> ?key t))"
    if p: "p \<in> set ?ps" and kl: "(k, l) \<in> set (pos_required_skills p)" for p k l
  proof -
    from count_demand_required [OF p kl] obtain e where e: "(k, e) \<in> set (count_demand ?ps)"
      by blast
    from count_demand_entry [OF assms e]
    have cnt: "dm_count e = ?cnt k" and tot: "dm_total_level e = ?tot k" and pos: "dm_count e > 0"
      by blast+
    from trending_entries_complete [OF e pos] obtain u
      where u: "u \<in> set ?E" and uk: "tr_skill u = k"
        and key: "?key u = (?cnt k, py_round1 (py_truediv (?tot k) (?cnt k)))"
      by (auto simp: cnt tot)
    from u have uS: "u \<in> set ?S" by (simp add: set_py_sort_reverse)
    show ?thesis
    proof (cases "u \<in> set (take 10 ?S)")
      case True
      with uk show ?thesis unfolding res by blast
    next
      case False
      from sorted_take_omitted [OF ranked_all uS False]
      have "length (take 10 ?S) = 10" and "\<forall>t \<in> set (take 10 ?S). ?key u \<le> ?key t" by blast+
      then show ?thesis unfolding res key by blast
    qed
  qed
  have ranked: "sorted_wrt (\<lambda>a b. ?key b \<le> ?key a) (get_trending_skills d)"
    unfolding res using ranked_all by (rule sorted_wrt_take)
  have short: "length (get_trending_skills d) \<le> 10" by (simp add: res)
  have example: "get_trending_skills
            \<lparr>current_positions = [],
             open_positions = [example_position ''P1'' ''Developer'' [(''python'', 3)],
                               example_position ''P2'' ''Tester'' [(''python'', 3)],
                               example_position ''P3'' ''Architect'' [(''python'', 5)]]\<rparr>
           = [\<lparr>tr_skill = ''python'', demand_count = 3, average_level = 3.7, trend = ''high''\<rparr>]"
    by (simp add: get_trending_skills_def get_open_positions_def example_position_def
          count_demand_def trending_entries_def float_examples py_sort_reverse_def
          py_slice_to_def)
  from covered have covered': "\<forall>p \<in> set ?ps. \<forall>(k, l) \<in> set (pos_required_skills p).
            k \<in> tr_skill ` set (get_trending_skills d)
            \<or> (length (get_trending_skills d) = 10
               \<and> (\<forall>t \<in> set (get_trending_skills d).
                     (?cnt k, py_round1 (py_truediv (?tot k) (?cnt k))) \<le> ?key t))"
    by blast
  from entry have entry': "\<forall>t \<in> set (get_trending_skills d).
            demand_count t = ?cnt (tr_skill t)
          \<and> 0 < demand_count t
          \<and> average_level t = py_round1 (py_truediv (?tot (tr_skill t)) (demand_count t))
          \<and> (\<exists>j. average_level t = real_of_int j / 10)
          \<and> (0 \<le> ?tot (tr_skill t) \<and> 20 * ?tot (tr_skill t) < 2 ^ 53 \<longrightarrow>
             \<bar>average_level t - real_of_int (?tot (tr_skill t)) / real_of_int (demand_count t)\<bar>
               \<le> 1 / 20)
          \<and> (trend t = ''high'' \<longleftrightarrow> 3 \<le> demand_count t)
          \<and> (trend t = ''medium'' \<longleftrightarrow> demand_count t = 2)
          \<and> (trend t = ''low'' \<longleftrightarrow> demand_count t < 2)"
    by blast
  show ?thesis
    by (intro conjI entry' names covered' ranked short example)
qed

theorem get_trending_skills_demand_witness:
  "map tr_skill
     (get_trending_skills
        \<lparr>current_positions = [],
         open_positions = [example_position ''P1'' ''Developer'' [(''sql'', 2), (''python'', 3)],
                           example_position ''P2'' ''Tester'' [(''python'', 4)]]\<rparr>)
     = [''python'', ''sql'']
   \<and> map demand_count
     (get_trending_skills
        \<lparr>current_positions = [],
         open_positions = [example_position ''P1'' ''Developer'' [(''sql'', 2), (''python'', 3)],
                           example_position ''P2'' ''Tester'' [(''python'', 4)]]\<rparr>)
     = [2, 1]
   \<and> map average_level
     (get_trending_skills
        \<lparr>current_positions = [],
         open_positions = [example_position ''P1'' ''Developer'' [(''sql'', 2), (''python'', 3)],
                           example_position ''P2'' ''Tester'' [(''python'', 4)]]\<rparr>)
     = [7 / 2, 2]
   \<and> distinct (map tr_skill
     (get_trending_skills
        \<lparr>current_positions = [],
         open_positions = [example_position ''P1'' ''Developer'' [(''sql'', 2), (''python'', 3)],
                           example_position ''P2'' ''Tester'' [(''python'', 4)]]\<rparr>))
   \<and> length
     (get_trending_skills
        \<lparr>current_positions = [],
         open_positions = [example_position ''P1'' ''Developer'' [(''sql'', 2), (''python'', 3)],
                           example_position ''P2'' ''Tester'' [(''python'', 4)]]\<rparr>) \<le> 10"
proof -
  let ?d = "\<lparr>current_positions = [],
         open_positions = [example_position ''P1'' ''Developer'' [(''sql'', 2), (''python'', 3)],
                           example_position ''P2'' ''Tester'' [(''python'', 4)]]\<rparr>"
  have keys: "\<forall>p \<in> set (get_open_positions ?d). distinct (map fst (pos_required_skills p))"
    by (simp add: get_open_positions_def example_position_def)
  have names: "map tr_skill (get_trending_skills ?d) = [''python'', ''sql'']"
    and counts: "map demand_count (get_trending_skills ?d) = [2, 1]"
    and levels: "map average_level (get_trending_skills ?d) = [7 / 2, 2]"
    by (simp_all add: get_trending_skills_def get_open_positions_def example_position_def
          count_demand_def trending_entries_def float_examples py_sort_reverse_def
          py_slice_to_def)
  from get_trending_skills_demand [OF keys]
  have "distinct (map tr_skill (get_trending_skills ?d))"
    and "length (get_trending_skills ?d) \<le> 10" by blast+
  with names counts levels show ?thesis by simp
qed

end
